theory Spec2Isabelle
  imports Main "HOL-Library.Char_ord" "HOL-Library.List_Lexorder" "HOL-Library.Multiset"
begin

text \<open>
  A static file server written in Go on top of gin: for a directory without an
  \<open>index.html\<close> it renders a listing page, for everything else it calls the file server
  of \<open>net/http\<close>; with the flag \<open>-tls\<close> it mints a certificate authority and a leaf
  certificate in memory and serves over TLS. The handler (\<open>Handle\<close>, \<open>HandleDirList\<close>,
  \<open>Items\<close>) is the same in both variants of the program; \<open>selfCert\<close> and the TLS branch of
  \<open>main\<close> are those of the variant that has the flag. The operating system, the clock,
  the random source and the libraries are answers given to the program: records of
  functions that the definitions take as arguments.
\<close>

section \<open>Strings and formatting as the Go runtime has them\<close>

text \<open>
  A Go string is a sequence of bytes: \<open>len\<close> counts bytes, \<open>s[:n]\<close> cuts at a byte
  offset and \<open><\<close> compares bytewise. A \<open>string\<close> here is the list of those bytes, ordered
  lexicographically by byte value. The widths of \<open>fmt.Sprintf\<close> count runes, not bytes, so
  the padding below counts runes the way \<open>utf8.RuneCountInString\<close> does.
\<close>

definition HasSuffix :: "string \<Rightarrow> string \<Rightarrow> bool" where
  "HasSuffix s suffix =
     (length suffix \<le> length s \<and> drop (length s - length suffix) s = suffix)"

definition byte_in :: "nat \<Rightarrow> nat \<Rightarrow> char \<Rightarrow> bool" where
  "byte_in lo hi c = (lo \<le> (of_char c :: nat) \<and> (of_char c :: nat) \<le> hi)"

text \<open>The number of bytes the first rune of a non-empty string takes; an invalid or
  truncated encoding counts as one byte (one replacement rune).\<close>

definition runeSize :: "string \<Rightarrow> nat" where
  "runeSize s =
     (let b = (of_char (hd s) :: nat) in
      if b < 0x80 then 1
      else if b < 0xC2 \<or> 0xF5 \<le> b then 1
      else
        let size = (if b < 0xE0 then 2 else if b < 0xF0 then 3 else (4::nat));
            lo = (if b = 0xE0 then 0xA0 else if b = 0xF0 then 0x90 else 0x80);
            hi = (if b = 0xED then 0x9F else if b = 0xF4 then 0x8F else 0xBF)
        in if length s < size then 1
           else if \<not> byte_in lo hi (s ! 1) then 1
           else if size = 2 then 2
           else if \<not> byte_in 0x80 0xBF (s ! 2) then 1
           else if size = 3 then 3
           else if \<not> byte_in 0x80 0xBF (s ! 3) then 1
           else 4)"

fun RuneCountInString :: "string \<Rightarrow> nat" where
  "RuneCountInString [] = 0"
| "RuneCountInString (c # cs) = Suc (RuneCountInString (drop (runeSize (c # cs) - 1) cs))"

text \<open>\<open>%-Ns\<close> pads on the right and \<open>%Ns\<close> on the left, with spaces, up to N runes.\<close>

definition padRight :: "nat \<Rightarrow> string \<Rightarrow> string" where
  "padRight w s = s @ replicate (w - RuneCountInString s) CHR '' ''"

definition padLeft :: "nat \<Rightarrow> string \<Rightarrow> string" where
  "padLeft w s = replicate (w - RuneCountInString s) CHR '' '' @ s"

definition digit :: "nat \<Rightarrow> char" where
  "digit d = ''0123456789'' ! d"

fun showNat :: "nat \<Rightarrow> string" where
  "showNat n = (if n < 10 then [digit n] else showNat (n div 10) @ [digit (n mod 10)])"

declare showNat.simps [simp del]

text \<open>\<open>fmt.Sprintf("%d", n)\<close> for an \<open>int64\<close>.\<close>

definition Sprintf_d :: "int \<Rightarrow> string" where
  "Sprintf_d n = (if n < 0 then CHR ''-'' # showNat (nat (- n)) else showNat (nat n))"

text \<open>Decimal digits padded with zeros to a width, as \<open>time.Format\<close> writes its fields.\<close>

definition zeroPad :: "nat \<Rightarrow> nat \<Rightarrow> string" where
  "zeroPad w n = replicate (w - length (showNat n)) CHR ''0'' @ showNat n"

datatype Month = January | February | March | April | May | June | July | August
  | September | October | November | December

fun Month_String :: "Month \<Rightarrow> string" where
  "Month_String January = ''January''"
| "Month_String February = ''February''"
| "Month_String March = ''March''"
| "Month_String April = ''April''"
| "Month_String May = ''May''"
| "Month_String June = ''June''"
| "Month_String July = ''July''"
| "Month_String August = ''August''"
| "Month_String September = ''September''"
| "Month_String October = ''October''"
| "Month_String November = ''November''"
| "Month_String December = ''December''"

text \<open>The wall-clock fields of a \<open>time.Time\<close> that \<open>Format\<close> reads.\<close>

record Time =
  Year :: nat
  Month :: Month
  Day :: nat
  Hour :: nat
  Minute :: nat

text \<open>\<open>t.Format("02-Jan-2006 15:04")\<close>.\<close>

definition Format_listing :: "Time \<Rightarrow> string" where
  "Format_listing t =
     zeroPad 2 (Day t) @ ''-'' @ take 3 (Month_String (Month t)) @ ''-'' @ zeroPad 4 (Year t)
       @ '' '' @ zeroPad 2 (Hour t) @ '':'' @ zeroPad 2 (Minute t)"

section \<open>Paths (path/filepath on a Unix system)\<close>

text \<open>
  \<open>filepath.Clean\<close> works on the elements between separators: it drops empty elements
  and \<open>.\<close>, lets \<open>..\<close> remove the element before it, drops a \<open>..\<close> that would climb above
  the root of a rooted path and keeps it at the front of a relative one. The separator
  is \<open>/\<close>, so \<open>filepath.FromSlash\<close> is the identity.
\<close>

fun splitSep :: "string \<Rightarrow> string list" where
  "splitSep [] = [[]]"
| "splitSep (c # cs) =
     (if c = CHR ''/'' then [] # splitSep cs
      else (case splitSep cs of [] \<Rightarrow> [[c]] | f # fs \<Rightarrow> (c # f) # fs))"

fun joinSep :: "string list \<Rightarrow> string" where
  "joinSep [] = []"
| "joinSep [e] = e"
| "joinSep (e # es) = e @ CHR ''/'' # joinSep es"

definition cleanStep :: "bool \<Rightarrow> string list \<Rightarrow> string \<Rightarrow> string list" where
  "cleanStep rooted out el =
     (if el = [] \<or> el = ''.'' then out
      else if el = ''..'' then
        (if out \<noteq> [] \<and> last out \<noteq> ''..'' then butlast out
         else if \<not> rooted then out @ [''..'']
         else out)
      else out @ [el])"

definition isRooted :: "string \<Rightarrow> bool" where
  "isRooted path = (path \<noteq> [] \<and> hd path = CHR ''/'')"

definition cleanElems :: "string \<Rightarrow> string list" where
  "cleanElems path = foldl (cleanStep (isRooted path)) [] (splitSep path)"

definition filepath_Clean :: "string \<Rightarrow> string" where
  "filepath_Clean path =
     (if path = [] then ''.''
      else if isRooted path then CHR ''/'' # joinSep (cleanElems path)
      else if cleanElems path = [] then ''.''
      else joinSep (cleanElems path))"

definition filepath_FromSlash :: "string \<Rightarrow> string" where
  "filepath_FromSlash path = path"

text \<open>\<open>filepath.Join\<close> ignores leading empty elements, joins the rest with the separator
  and cleans the result.\<close>

definition filepath_Join :: "string list \<Rightarrow> string" where
  "filepath_Join elem =
     (case dropWhile (\<lambda>e. e = []) elem of
        [] \<Rightarrow> []
      | es \<Rightarrow> filepath_Clean (joinSep es))"

section \<open>The file system and the HTTP context\<close>

datatype os_error = ErrNotExist | ErrPermission | ErrInvalid | ErrIO

definition IsNotExist :: "os_error \<Rightarrow> bool" where
  "IsNotExist e = (e = ErrNotExist)"

text \<open>What the handler reads of an \<open>os.FileInfo\<close>; \<open>fi_IsSymlink\<close> is
  \<open>Mode()&os.ModeSymlink != 0\<close>.\<close>

record FileInfo =
  fi_Name :: string
  fi_Size :: int
  fi_IsSymlink :: bool
  fi_IsDir :: bool
  fi_ModTime :: Time

text \<open>The answers of the operating system to the calls the handler makes.\<close>

record filesystem =
  os_Stat :: "string \<Rightarrow> os_error + FileInfo"
  os_Lstat :: "string \<Rightarrow> os_error + FileInfo"
  os_Readlink :: "string \<Rightarrow> os_error + string"
  ioutil_ReadDir :: "string \<Rightarrow> os_error + FileInfo list"

text \<open>The request as the handler reads it: \<open>c.Request.URL.Path\<close> and
  \<open>c.Param("filepath")\<close>.\<close>

record request =
  URL_Path :: string
  Param_filepath :: string

text \<open>The calls made on the response, in order. A \<open>gin.Context\<close> is the list of the calls
  made on it so far.\<close>

datatype effect =
    Header_Add string string
  | Redirect nat string
  | AbortWithError nat os_error
  | Data nat string string
  | ServeHTTP

type_synonym gin_Context = "effect list"

text \<open>A Go call returns or panics.\<close>

datatype 'a outcome = Returns 'a | Panics

section \<open>Items\<close>

record Item =
  Name :: string
  IsDir :: bool
  Formatted :: string

text \<open>\<open>Name[:1]\<close> panics on an empty name; \<open>Less_panics\<close> says when, and \<open>Less\<close> is the
  value returned otherwise.\<close>

definition Less_panics :: "Item \<Rightarrow> Item \<Rightarrow> bool" where
  "Less_panics a b = (length (Name a) < 1 \<or> length (Name b) < 1)"

definition Less :: "Item \<Rightarrow> Item \<Rightarrow> bool" where
  "Less a b =
     (let iDir = IsDir a;
          jDir = IsDir b;
          iHidden = (take 1 (Name a) = ''.'');
          jHidden = (take 1 (Name b) = ''.'')
      in if iDir \<and> \<not> jDir then True
         else if \<not> iDir \<and> jDir then False
         else if iHidden \<and> \<not> jHidden then True
         else if \<not> iHidden \<and> jHidden then False
         else Name a < Name b)"

text \<open>
  \<open>sort.Sort\<close> with this \<open>Less\<close>, modelled by an insertion sort. The algorithm of the
  library is not reproduced: for items with distinct names, as the entries of a
  directory have, every arrangement that is in the order of \<open>Less\<close> is the same one. A
  sort of two or more items calls \<open>Less\<close> on each of them, so an empty name makes the
  call panic.
\<close>

fun insertItem :: "Item \<Rightarrow> Item list \<Rightarrow> Item list" where
  "insertItem x [] = [x]"
| "insertItem x (y # ys) = (if Less x y then x # y # ys else y # insertItem x ys)"

definition insertionSort :: "Item list \<Rightarrow> Item list" where
  "insertionSort items = foldl (\<lambda>acc x. insertItem x acc) [] items"

definition Sort :: "Item list \<Rightarrow> Item list outcome" where
  "Sort items =
     (if 2 \<le> length items \<and> (\<exists>a \<in> set items. \<exists>b \<in> set items. Less_panics a b)
      then Panics
      else Returns (insertionSort items))"

fun Join_loop :: "nat \<Rightarrow> Item list \<Rightarrow> string \<Rightarrow> string \<Rightarrow> string" where
  "Join_loop i [] sep data = data"
| "Join_loop i (item # items) sep data =
     Join_loop (Suc i) items sep ((if i \<noteq> 0 then data @ sep else data) @ Formatted item)"

definition Items_Join :: "Item list \<Rightarrow> string \<Rightarrow> string" where
  "Items_Join items sep = Join_loop 0 items sep []"

section \<open>The directory listing\<close>

text \<open>The page: \<open>fmt.Sprintf(body, a, b, c)\<close>.\<close>

definition Sprintf_body :: "string \<Rightarrow> string \<Rightarrow> string \<Rightarrow> string" where
  \<open>Sprintf_body a b c =
     ''<html>'' @ ''\<newline>'' @
     ''<head><title>Index of '' @ a @ ''</title></head>'' @ ''\<newline>'' @
     ''<body bgcolor="white">'' @ ''\<newline>'' @
     ''<h1>Index of '' @ b @ ''</h1><hr><pre><a href="../">../</a>'' @ ''\<newline>'' @
     c @ ''</pre><hr></body>'' @ ''\<newline>'' @
     ''</html>'' @ ''\<newline>''\<close>

text \<open>One line: \<open>fmt.Sprintf("%-54s %s %19s", a, b, c)\<close>.\<close>

definition Sprintf_line :: "string \<Rightarrow> string \<Rightarrow> string \<Rightarrow> string" where
  "Sprintf_line a b c = padRight 54 a @ '' '' @ b @ '' '' @ padLeft 19 c"

text \<open>The name shown between the anchor tags.\<close>

definition formattedName :: "string \<Rightarrow> string" where
  "formattedName name = (if 50 < length name then take 47 name @ ''..>'' else name)"

text \<open>The tail of the loop body of \<open>HandleDirList\<close>: the item added for an entry, from the
  entry's name, the formatted modification time and the \<open>FileInfo\<close> that \<open>item\<close> holds at
  that point.\<close>

definition newItem :: "string \<Rightarrow> string \<Rightarrow> FileInfo \<Rightarrow> Item" where
  \<open>newItem name0 modTime item =
     (let name = (if fi_IsDir item then name0 @ ''/'' else name0);
          size = (if fi_IsDir item then ''-'' else Sprintf_d (fi_Size item))
      in \<lparr>Name = name,
          IsDir = fi_IsDir item,
          Formatted = (''<a href="'' @ name @ ''">'') @
            Sprintf_line (formattedName name @ ''</a>'') modTime size\<rparr>)\<close>

text \<open>The loop over the entries either returns from the handler (with \<open>ok\<close> false and the
  error it has, none for an \<open>index.html\<close>) or runs to its end with the items.\<close>

datatype loop_result = Loop_return "os_error option" | Loop_done "Item list"

fun HandleDirList_loop ::
  "filesystem \<Rightarrow> string \<Rightarrow> FileInfo list \<Rightarrow> Item list \<Rightarrow> loop_result" where
  "HandleDirList_loop fs path [] items = Loop_done items"
| "HandleDirList_loop fs path (item # itemsAll) items =
     (let name = fi_Name item in
      if name = ''index.html'' then Loop_return None
      else
        let modTime = Format_listing (fi_ModTime item) in
        if fi_IsSymlink item then
          (case os_Readlink fs (filepath_Join [path, fi_Name item]) of
             Inl e \<Rightarrow> Loop_return (Some e)
           | Inr linkPath \<Rightarrow>
               (case os_Lstat fs linkPath of
                  Inl e \<Rightarrow>
                    if IsNotExist e then HandleDirList_loop fs path itemsAll items
                    else Loop_return (Some e)
                | Inr itm \<Rightarrow>
                    HandleDirList_loop fs path itemsAll (items @ [newItem name modTime itm])))
        else HandleDirList_loop fs path itemsAll (items @ [newItem name modTime item]))"

text \<open>The path shown in the title and the heading of the page: the first lines of
  \<open>HandleDirList\<close>.\<close>

definition pathFrm :: "request \<Rightarrow> string" where
  "pathFrm req =
     (let p = filepath_Clean (''/'' @ Param_filepath req)
      in if \<not> HasSuffix p ''/'' then p @ ''/'' else p)"

definition HandleDirList ::
  "filesystem \<Rightarrow> string \<Rightarrow> request \<Rightarrow> gin_Context
     \<Rightarrow> gin_Context \<times> (bool \<times> os_error option) outcome" where
  "HandleDirList fs path req c =
     (let pathFrm = pathFrm req;
          c1 = (if \<not> HasSuffix (URL_Path req) ''/''
                then c @ [Redirect 301 (URL_Path req @ ''/'')] else c)
      in case ioutil_ReadDir fs path of
           Inl err \<Rightarrow> (c1, Returns (False, Some err))
         | Inr itemsAll \<Rightarrow>
             (case HandleDirList_loop fs path itemsAll [] of
                Loop_return err \<Rightarrow> (c1, Returns (False, err))
              | Loop_done items \<Rightarrow>
                  (case Sort items of
                     Panics \<Rightarrow> (c1, Panics)
                   | Returns sortedItems \<Rightarrow>
                       (c1 @ [Data 200 ''text/html''
                                (Sprintf_body pathFrm pathFrm (Items_Join sortedItems ''\<newline>''))],
                        Returns (True, None)))))"

section \<open>The static handler\<close>

definition IsDirectory :: "filesystem \<Rightarrow> string \<Rightarrow> bool \<times> os_error option" where
  "IsDirectory fs path =
     (case os_Stat fs path of
        Inl err \<Rightarrow> (False, if IsNotExist err then None else Some err)
      | Inr stat \<Rightarrow> (fi_IsDir stat, None))"

record StaticHandler =
  Root :: string
  Cache :: bool
  ContentType :: string

text \<open>The path the handler looks up for a request.\<close>

definition Handle_path :: "StaticHandler \<Rightarrow> request \<Rightarrow> string" where
  "Handle_path h req =
     filepath_Join [Root h, filepath_FromSlash (filepath_Clean (''/'' @ Param_filepath req))]"

definition Handle ::
  "StaticHandler \<Rightarrow> filesystem \<Rightarrow> request \<Rightarrow> gin_Context \<Rightarrow> gin_Context \<times> unit outcome" where
  "Handle h fs req c =
     (let c1 = (if \<not> Cache h
                then c @ [Header_Add ''Cache-Control'' ''no-cache, no-store, must-revalidate'',
                          Header_Add ''Pragma'' ''no-cache'',
                          Header_Add ''Expires'' ''0'']
                else c);
          path = Handle_path h req
      in case IsDirectory fs path of
           (isDir, Some err) \<Rightarrow> (c1 @ [AbortWithError 500 err], Returns ())
         | (isDir, None) \<Rightarrow>
             (case (if isDir then HandleDirList fs path req c1
                    else (c1, Returns (False, None))) of
                (c2, Panics) \<Rightarrow> (c2, Panics)
              | (c2, Returns (ok, Some err)) \<Rightarrow> (c2 @ [AbortWithError 500 err], Returns ())
              | (c2, Returns (ok, None)) \<Rightarrow>
                  if \<not> ok
                  then (let c3 = (if ContentType h \<noteq> []
                                  then c2 @ [Header_Add ''Content-Type'' (ContentType h)]
                                  else c2)
                        in (c3 @ [ServeHTTP], Returns ()))
                  else (c2, Returns ())))"

section \<open>Minting certificates\<close>

text \<open>
  An error of the Go runtime or of a library, by its message. A point in time is a count
  of nanoseconds, a \<open>time.Duration\<close> likewise; the two durations used below are far from
  the limits of \<open>int64\<close>.
\<close>

datatype go_error = GoError string

type_synonym instant = int

definition time_Hour :: int where
  "time_Hour = 3600 * 1000000000"

definition time_Add :: "instant \<Rightarrow> int \<Rightarrow> instant" where
  "time_Add t d = t + d"

datatype curve = P224 | P256 | P384 | P521

record PublicKey =
  pub_Curve :: curve
  pub_X :: nat
  pub_Y :: nat

record PrivateKey =
  priv_PublicKey :: PublicKey
  priv_D :: nat

definition Public :: "PrivateKey \<Rightarrow> PublicKey" where
  "Public k = priv_PublicKey k"

text \<open>The bits of \<open>x509.KeyUsage\<close> set here, with the values the library gives them.\<close>

definition KeyUsageDigitalSignature :: int where
  "KeyUsageDigitalSignature = push_bit 0 1"

definition KeyUsageKeyEncipherment :: int where
  "KeyUsageKeyEncipherment = push_bit 2 1"

datatype ExtKeyUsage = ExtKeyUsageAny | ExtKeyUsageServerAuth | ExtKeyUsageClientAuth
  | ExtKeyUsageCodeSigning

datatype SignatureAlgorithm = UnknownSignatureAlgorithm | SHA256WithRSA | ECDSAWithSHA1
  | ECDSAWithSHA256 | ECDSAWithSHA384 | ECDSAWithSHA512

text \<open>The fields of an \<open>x509.Certificate\<close> that \<open>selfCert\<close> sets.\<close>

record Certificate =
  SerialNumber :: int
  Subject_Organization :: "string list"
  NotBefore :: instant
  NotAfter :: instant
  KeyUsage :: int
  ExtKeyUsage :: "ExtKeyUsage list"
  BasicConstraintsValid :: bool
  SignatureAlgorithm :: SignatureAlgorithm

text \<open>
  What the runtime and the libraries answer during one call of \<open>selfCert\<close>: the key
  generated for a curve, the number \<open>rand.Int\<close> draws below a limit, the clock at the
  first and the second call of \<open>time.Now\<close>, and the encoder and parser of \<open>crypto/x509\<close>.
\<close>

record mint_env =
  ecdsa_GenerateKey :: "curve \<Rightarrow> go_error + PrivateKey"
  rand_Int :: "int \<Rightarrow> go_error + int"
  time_Now :: "nat \<Rightarrow> instant"
  x509_CreateCertificate ::
    "Certificate \<Rightarrow> Certificate \<Rightarrow> PublicKey \<Rightarrow> PrivateKey option \<Rightarrow> go_error + nat list"
  x509_ParseCertificate :: "nat list \<Rightarrow> go_error + Certificate"

definition certTempl :: "mint_env \<Rightarrow> int \<Rightarrow> Certificate" where
  "certTempl env serial =
     \<lparr>SerialNumber = serial,
      Subject_Organization = [''Pacur HTTP Server''],
      NotBefore = time_Add (time_Now env 0) (- 24 * time_Hour),
      NotAfter = time_Add (time_Now env 1) (26280 * time_Hour),
      KeyUsage = or KeyUsageKeyEncipherment KeyUsageDigitalSignature,
      ExtKeyUsage = [ExtKeyUsageServerAuth],
      BasicConstraintsValid = True,
      SignatureAlgorithm = ECDSAWithSHA256\<rparr>"

text \<open>\<open>selfCert\<close> returns its error or the certificate, its bytes and its key. With no
  parent the template signs itself with its own key.\<close>

definition selfCert ::
  "mint_env \<Rightarrow> Certificate option \<Rightarrow> PrivateKey option
     \<Rightarrow> go_error + (Certificate \<times> nat list \<times> PrivateKey)" where
  "selfCert env parent parentKey =
     (case ecdsa_GenerateKey env P384 of
        Inl err \<Rightarrow> Inl err
      | Inr certKey \<Rightarrow>
          (let serialLimit = push_bit 128 (1::int) in
           case rand_Int env serialLimit of
             Inl err \<Rightarrow> Inl err
           | Inr serial \<Rightarrow>
               (let tmpl = certTempl env serial;
                    parent1 = (case parent of None \<Rightarrow> tmpl | Some p \<Rightarrow> p);
                    parentKey1 = (case parent of None \<Rightarrow> Some certKey | Some p \<Rightarrow> parentKey)
                in case x509_CreateCertificate env tmpl parent1 (Public certKey) parentKey1 of
                     Inl err \<Rightarrow> Inl err
                   | Inr certByt \<Rightarrow>
                       (case x509_ParseCertificate env certByt of
                          Inl err \<Rightarrow> Inl err
                        | Inr cert \<Rightarrow> Inr (cert, certByt, certKey)))))"

section \<open>Startup\<close>

text \<open>The command line after \<open>flag.Parse\<close>: a flag that was not given is \<open>None\<close>.\<close>

record flags =
  flag_path :: "string option"
  flag_host :: "string option"
  flag_port :: "int option"
  flag_cache :: "bool option"
  flag_tls :: "bool option"
  flag_type :: "string option"

record pem_Block =
  pem_Type :: string
  pem_Bytes :: "nat list"

record tls_Config =
  MinVersion :: nat
  MaxVersion :: nat
  Certificates :: "nat list"

definition VersionTLS12 :: nat where
  "VersionTLS12 = 0x0303"

record http_Server =
  Addr :: string
  Handler :: StaticHandler

text \<open>
  What the runtime and the libraries answer during \<open>main\<close>. A loaded key pair and a
  listener are known by a number. The two calls of \<open>selfCert\<close> each have their own
  answers.
\<close>

record boot_env =
  os_Getwd :: "go_error + string"
  filepath_Abs :: "string \<Rightarrow> go_error + string"
  mint_ca :: mint_env
  mint_leaf :: mint_env
  x509_MarshalECPrivateKey :: "PrivateKey \<Rightarrow> go_error + nat list"
  pem_EncodeToMemory :: "pem_Block \<Rightarrow> nat list"
  tls_X509KeyPair :: "nat list \<Rightarrow> nat list \<Rightarrow> go_error + nat"
  tls_Listen :: "string \<Rightarrow> string \<Rightarrow> tls_Config \<Rightarrow> go_error + nat"

text \<open>
  How \<open>main\<close> ends: it panics, it returns, or it reaches \<open>server.Serve\<close> on the TLS
  listener or \<open>server.ListenAndServe\<close>, where the process starts to accept requests.
\<close>

datatype main_end =
    Panic go_error
  | Exit
  | Serve http_Server nat
  | ListenAndServe http_Server

definition main_tls :: "boot_env \<Rightarrow> http_Server \<Rightarrow> main_end" where
  "main_tls env server =
     (case selfCert (mint_ca env) None None of
        Inl err \<Rightarrow> Panic err
      | Inr (caCert, caByt, caKey) \<Rightarrow>
          (case selfCert (mint_leaf env) (Some caCert) (Some caKey) of
             Inl err \<Rightarrow> Panic err
           | Inr (cert, certByt, certKey) \<Rightarrow>
               (case x509_MarshalECPrivateKey env certKey of
                  Inl err \<Rightarrow> Panic err
                | Inr certKeyByte \<Rightarrow>
                    (let keyPem = pem_EncodeToMemory env
                           \<lparr>pem_Type = ''EC PRIVATE KEY'', pem_Bytes = certKeyByte\<rparr>;
                         certPem = pem_EncodeToMemory env
                           \<lparr>pem_Type = ''CERTIFICATE'', pem_Bytes = certByt\<rparr>
                     in case tls_X509KeyPair env certPem keyPem of
                          Inl err \<Rightarrow> Exit
                        | Inr keypair \<Rightarrow>
                            (let tlsConfig = \<lparr>MinVersion = VersionTLS12,
                                              MaxVersion = VersionTLS12,
                                              Certificates = [keypair]\<rparr>
                             in case tls_Listen env ''tcp'' (Addr server) tlsConfig of
                                  Inl err \<Rightarrow> Panic err
                                | Inr listener \<Rightarrow> Serve server listener)))))"

text \<open>\<open>main\<close> of the variant with the flag \<open>-tls\<close>, with the line it prints.\<close>

definition main :: "boot_env \<Rightarrow> flags \<Rightarrow> string list \<times> main_end" where
  "main env args =
     (case os_Getwd env of
        Inl err \<Rightarrow> ([], Panic err)
      | Inr cwd \<Rightarrow>
          (let path0 = (case flag_path args of None \<Rightarrow> cwd | Some p \<Rightarrow> p);
               host = (case flag_host args of None \<Rightarrow> ''[::]'' | Some h \<Rightarrow> h);
               port = (case flag_port args of None \<Rightarrow> 8000 | Some n \<Rightarrow> n);
               cache = (case flag_cache args of None \<Rightarrow> False | Some b \<Rightarrow> b);
               tlsServer = (case flag_tls args of None \<Rightarrow> False | Some b \<Rightarrow> b);
               contentType = (case flag_type args of None \<Rightarrow> [] | Some t \<Rightarrow> t)
           in case filepath_Abs env path0 of
                Inl err \<Rightarrow> ([], Panic err)
              | Inr path \<Rightarrow>
                  (let static = \<lparr>Root = path, Cache = cache, ContentType = contentType\<rparr>;
                       scheme = (if tlsServer then ''https'' else ''http'');
                       out = [''Listening and serving '' @ path @ '' on '' @ scheme @ ''://''
                                @ host @ '':'' @ Sprintf_d port @ ''\<newline>''];
                       server = \<lparr>Addr = host @ '':'' @ Sprintf_d port, Handler = static\<rparr>
                   in if tlsServer then (out, main_tls env server)
                      else (out, ListenAndServe server))))"

section \<open>Notions used in the statements\<close>

text \<open>What the loop of \<open>HandleDirList\<close> reads of one entry before it builds the item: the
  \<open>FileInfo\<close> that \<open>item\<close> holds after the symbolic link block, none when the entry is
  skipped, or the error the handler returns.\<close>

definition entryInfo :: "filesystem \<Rightarrow> string \<Rightarrow> FileInfo \<Rightarrow> os_error + FileInfo option" where
  "entryInfo fs path e =
     (if fi_IsSymlink e then
        (case os_Readlink fs (filepath_Join [path, fi_Name e]) of
           Inl err \<Rightarrow> Inl err
         | Inr linkPath \<Rightarrow>
             (case os_Lstat fs linkPath of
                Inl err \<Rightarrow> if IsNotExist err then Inr None else Inl err
              | Inr itm \<Rightarrow> Inr (Some itm)))
      else Inr (Some e))"

text \<open>An item is hidden when its name begins with a dot.\<close>

definition hidden :: "Item \<Rightarrow> bool" where
  "hidden a = (take 1 (Name a) = ''.'')"

text \<open>A path element that \<open>filepath.Clean\<close> keeps as it is.\<close>

definition plain :: "string \<Rightarrow> bool" where
  "plain el = (el \<noteq> [] \<and> el \<noteq> ''.'' \<and> el \<noteq> ''..'' \<and> CHR ''/'' \<notin> set el)"

text \<open>The headers that \<open>Handle\<close> adds first when the cache is off.\<close>

definition cacheHeaders :: "StaticHandler \<Rightarrow> effect list" where
  "cacheHeaders h =
     (if \<not> Cache h
      then [Header_Add ''Cache-Control'' ''no-cache, no-store, must-revalidate'',
            Header_Add ''Pragma'' ''no-cache'',
            Header_Add ''Expires'' ''0'']
      else [])"

text \<open>The item that the specification describes for a symbolic link of a given name:
  type, size and modification time all taken from the \<open>FileInfo\<close> that \<open>os.Stat\<close> gives for
  the link's target.\<close>

definition spec_symlink_item :: "string \<Rightarrow> FileInfo \<Rightarrow> Item" where
  "spec_symlink_item name target = newItem name (Format_listing (fi_ModTime target)) target"

section \<open>Example inputs\<close>

definition time_a :: Time where
  "time_a = \<lparr>Year = 2020, Month = March, Day = 5, Hour = 7, Minute = 9\<rparr>"

definition time_b :: Time where
  "time_b = \<lparr>Year = 2021, Month = December, Day = 25, Hour = 17, Minute = 30\<rparr>"

definition regularFile :: "string \<Rightarrow> int \<Rightarrow> Time \<Rightarrow> FileInfo" where
  "regularFile name n t =
     \<lparr>fi_Name = name, fi_Size = n, fi_IsSymlink = False, fi_IsDir = False, fi_ModTime = t\<rparr>"

definition directory :: "string \<Rightarrow> Time \<Rightarrow> FileInfo" where
  "directory name t =
     \<lparr>fi_Name = name, fi_Size = 4096, fi_IsSymlink = False, fi_IsDir = True, fi_ModTime = t\<rparr>"

definition symlink :: "string \<Rightarrow> int \<Rightarrow> Time \<Rightarrow> FileInfo" where
  "symlink name n t =
     \<lparr>fi_Name = name, fi_Size = n, fi_IsSymlink = True, fi_IsDir = False, fi_ModTime = t\<rparr>"

definition long_name :: string where
  "long_name = ''aaaaaaaaaabbbbbbbbbbccccccccccddddddddddeeeeeeeeeeffffffffff.txt''"

definition entries_example :: "FileInfo list" where
  "entries_example =
     [regularFile ''.hidden'' 3 time_a, regularFile ''b.txt'' 10 time_b, directory ''sub'' time_a]"

definition items_example :: "Item list" where
  "items_example =
     [newItem ''.hidden'' (Format_listing time_a) (regularFile ''.hidden'' 3 time_a),
      newItem ''b.txt'' (Format_listing time_b) (regularFile ''b.txt'' 10 time_b),
      newItem ''sub'' (Format_listing time_a) (directory ''sub'' time_a)]"

text \<open>A root \<open>/srv\<close> with two files and a directory; \<open>/srv/sub\<close> holds one file with a
  long name, and \<open>/srv/site\<close> a file and an \<open>index.html\<close>.\<close>

definition fs_example :: filesystem where
  "fs_example =
     \<lparr>os_Stat = (\<lambda>p. if p = ''/srv'' then Inr (directory ''srv'' time_a)
                     else if p = ''/srv/sub'' then Inr (directory ''sub'' time_a)
                     else if p = ''/srv/site'' then Inr (directory ''site'' time_a)
                     else Inl ErrNotExist),
      os_Lstat = (\<lambda>p. Inl ErrNotExist),
      os_Readlink = (\<lambda>p. Inl ErrInvalid),
      ioutil_ReadDir = (\<lambda>p. if p = ''/srv'' then Inr entries_example
                            else if p = ''/srv/sub''
                            then Inr [regularFile long_name 7 time_b]
                            else if p = ''/srv/site''
                            then Inr [regularFile ''a.txt'' 1 time_a,
                                      regularFile ''index.html'' 20 time_a]
                            else Inl ErrNotExist)\<rparr>"

text \<open>
  A root \<open>/srv\<close> with three symbolic links: \<open>ln\<close> to the file \<open>/data/f\<close>, \<open>ln2\<close> to
  \<open>/data/l\<close>, itself a link to the directory \<open>/data/d\<close>, and \<open>gone\<close> to a path that does
  not exist. \<open>os.Stat\<close> follows links to the end and \<open>os.Lstat\<close> does not follow the last
  one; both name the \<open>FileInfo\<close> after the path they were given. The directory \<open>/srv/x\<close>
  holds a link to a path that may not be examined, and \<open>/srv/y\<close> holds the same link and
  an \<open>index.html\<close>.
\<close>

definition fs_links :: filesystem where
  "fs_links =
     \<lparr>os_Stat = (\<lambda>p. if p = ''/srv'' then Inr (directory ''srv'' time_a)
                     else if p = ''/srv/x'' then Inr (directory ''x'' time_a)
                     else if p = ''/srv/y'' then Inr (directory ''y'' time_a)
                     else if p = ''/data/f'' then Inr (regularFile ''f'' 100 time_b)
                     else if p = ''/data/l'' then Inr (directory ''l'' time_b)
                     else if p = ''/srv/ln2'' then Inr (directory ''ln2'' time_b)
                     else if p = ''/root/secret'' then Inl ErrPermission
                     else Inl ErrNotExist),
      os_Lstat = (\<lambda>p. if p = ''/data/f'' then Inr (regularFile ''f'' 100 time_b)
                      else if p = ''/data/l'' then Inr (symlink ''l'' 7 time_b)
                      else if p = ''/root/secret'' then Inl ErrPermission
                      else Inl ErrNotExist),
      os_Readlink = (\<lambda>p. if p = ''/srv/ln'' then Inr ''/data/f''
                         else if p = ''/srv/ln2'' then Inr ''/data/l''
                         else if p = ''/srv/gone'' then Inr ''/data/none''
                         else if p = ''/srv/x/a'' then Inr ''/root/secret''
                         else if p = ''/srv/y/a'' then Inr ''/root/secret''
                         else Inl ErrInvalid),
      ioutil_ReadDir = (\<lambda>p. if p = ''/srv''
                            then Inr [symlink ''gone'' 10 time_a,
                                      symlink ''ln'' 7 time_a,
                                      symlink ''ln2'' 7 time_a]
                            else if p = ''/srv/x''
                            then Inr [symlink ''a'' 12 time_a]
                            else if p = ''/srv/y''
                            then Inr [symlink ''a'' 12 time_a,
                                      regularFile ''index.html'' 20 time_a]
                            else Inl ErrNotExist)\<rparr>"

text \<open>
  A root \<open>/srv\<close>, which is not the working directory of the process, with links whose
  text is a relative path. \<open>/srv/rel\<close> points to \<open>target.txt\<close>, that is to the file
  \<open>/srv/target.txt\<close>; the working directory has no \<open>target.txt\<close>. \<open>/srv/sub/link\<close> points
  to \<open>data\<close>, that is to the directory \<open>/srv/sub/data\<close>; the working directory has a file
  named \<open>data\<close>. A relative path is looked up from the working directory.
\<close>

definition fs_relative :: filesystem where
  "fs_relative =
     \<lparr>os_Stat = (\<lambda>p. if p = ''/srv'' then Inr (directory ''srv'' time_a)
                     else if p = ''/srv/sub'' then Inr (directory ''sub'' time_a)
                     else if p = ''/srv/target.txt'' then Inr (regularFile ''target.txt'' 100 time_b)
                     else if p = ''/srv/rel'' then Inr (regularFile ''rel'' 100 time_b)
                     else if p = ''/srv/sub/data'' then Inr (directory ''data'' time_b)
                     else if p = ''/srv/sub/link'' then Inr (directory ''link'' time_b)
                     else if p = ''data'' then Inr (regularFile ''data'' 55 time_a)
                     else Inl ErrNotExist),
      os_Lstat = (\<lambda>p. if p = ''/srv/target.txt'' then Inr (regularFile ''target.txt'' 100 time_b)
                      else if p = ''/srv/rel'' then Inr (symlink ''rel'' 10 time_a)
                      else if p = ''/srv/sub/data'' then Inr (directory ''data'' time_b)
                      else if p = ''/srv/sub/link'' then Inr (symlink ''link'' 4 time_a)
                      else if p = ''data'' then Inr (regularFile ''data'' 55 time_a)
                      else Inl ErrNotExist),
      os_Readlink = (\<lambda>p. if p = ''/srv/rel'' then Inr ''target.txt''
                         else if p = ''/srv/sub/link'' then Inr ''data''
                         else Inl ErrInvalid),
      ioutil_ReadDir = (\<lambda>p. if p = ''/srv''
                            then Inr [symlink ''rel'' 10 time_a,
                                      directory ''sub'' time_a,
                                      regularFile ''target.txt'' 100 time_b]
                            else if p = ''/srv/sub''
                            then Inr [directory ''data'' time_b, symlink ''link'' 4 time_a]
                            else Inl ErrNotExist)\<rparr>"

text \<open>A name of 26 characters of two bytes each (U+00E9 in UTF-8): 52 bytes.\<close>

definition accented_name :: string where
  "accented_name = concat (replicate 26 [CHR 0xC3, CHR 0xA9])"

definition handler_example :: StaticHandler where
  "handler_example = \<lparr>Root = ''/srv'', Cache = True, ContentType = []\<rparr>"

definition request_traversal :: request where
  "request_traversal =
     \<lparr>URL_Path = ''/../../etc/passwd'', Param_filepath = ''/../../etc/passwd''\<rparr>"

definition request_x :: request where
  "request_x = \<lparr>URL_Path = ''/x'', Param_filepath = ''/x''\<rparr>"

definition request_y :: request where
  "request_y = \<lparr>URL_Path = ''/y/'', Param_filepath = ''/y/''\<rparr>"

definition request_sub :: request where
  "request_sub = \<lparr>URL_Path = ''/sub'', Param_filepath = ''/sub''\<rparr>"

definition request_site :: request where
  "request_site = \<lparr>URL_Path = ''/site/'', Param_filepath = ''/site/''\<rparr>"

text \<open>Answers under which \<open>selfCert\<close> and the TLS branch of \<open>main\<close> succeed, and the same
  with a key pair that does not load.\<close>

definition key_example :: "nat \<Rightarrow> PrivateKey" where
  "key_example d =
     \<lparr>priv_PublicKey = \<lparr>pub_Curve = P384, pub_X = d + 1, pub_Y = d + 2\<rparr>, priv_D = d\<rparr>"

definition mint_example :: "nat \<Rightarrow> mint_env" where
  "mint_example n =
     \<lparr>ecdsa_GenerateKey =
        (\<lambda>c. if c = P384 then Inr (key_example n) else Inl (GoError ''unsupported curve'')),
      rand_Int =
        (\<lambda>limit. if 0 < limit then Inr ((12345 + int n) mod limit)
                  else Inl (GoError ''limit is not positive'')),
      time_Now = (\<lambda>k. 1700000000000000000 + int k),
      x509_CreateCertificate =
        (\<lambda>t p pub k. case k of None \<Rightarrow> Inl (GoError ''no signing key'')
                        | Some key \<Rightarrow> Inr [n, nat (SerialNumber t), priv_D key]),
      x509_ParseCertificate =
        (\<lambda>b. case b of [] \<Rightarrow> Inl (GoError ''malformed certificate'')
               | x # xs \<Rightarrow> Inr \<lparr>SerialNumber = 12345 + int x,
                                 Subject_Organization = [''Pacur HTTP Server''],
                                 NotBefore = 1699913600000000000,
                                 NotAfter = 1794608000000000000,
                                 KeyUsage = 5,
                                 ExtKeyUsage = [ExtKeyUsageServerAuth],
                                 BasicConstraintsValid = True,
                                 SignatureAlgorithm = ECDSAWithSHA256\<rparr>)\<rparr>"

definition boot_example :: boot_env where
  "boot_example =
     \<lparr>os_Getwd = Inr ''/home/user'',
      filepath_Abs = (\<lambda>p. Inr p),
      mint_ca = mint_example 2,
      mint_leaf = mint_example 3,
      x509_MarshalECPrivateKey = (\<lambda>k. Inr [priv_D k]),
      pem_EncodeToMemory = (\<lambda>b. length (pem_Type b) # pem_Bytes b),
      tls_X509KeyPair = (\<lambda>c k. Inr 1),
      tls_Listen = (\<lambda>network addr cfg. Inr 7)\<rparr>"

definition boot_badpair :: boot_env where
  "boot_badpair =
     boot_example\<lparr>tls_X509KeyPair :=
       (\<lambda>c k. Inl (GoError ''tls: private key does not match public key''))\<rparr>"

definition flags_tls :: flags where
  "flags_tls =
     \<lparr>flag_path = Some ''/srv'', flag_host = None, flag_port = None, flag_cache = None,
      flag_tls = Some True, flag_type = None\<rparr>"

section \<open>The loop over the entries\<close>

lemma Name_newItem: "Name (newItem n mt fi) = (if fi_IsDir fi then n @ ''/'' else n)"
  by (simp add: newItem_def Let_def)

lemma IsDir_newItem: "IsDir (newItem n mt fi) = fi_IsDir fi"
  by (simp add: newItem_def Let_def)

lemma Formatted_newItem:
  \<open>Formatted (newItem n mt fi) =
     ''<a href="'' @ Name (newItem n mt fi) @ ''">'' @
       Sprintf_line (formattedName (Name (newItem n mt fi)) @ ''</a>'') mt
         (if fi_IsDir fi then ''-'' else Sprintf_d (fi_Size fi))\<close>
  by (simp add: newItem_def Let_def)

lemma padRight_prefix: "padRight w s = s @ replicate (w - RuneCountInString s) CHR '' ''"
  by (simp add: padRight_def)

lemma loop_step:
  "HandleDirList_loop fs path (e # es) acc =
     (if fi_Name e = ''index.html'' then Loop_return None
      else case entryInfo fs path e of
             Inl err \<Rightarrow> Loop_return (Some err)
           | Inr None \<Rightarrow> HandleDirList_loop fs path es acc
           | Inr (Some info) \<Rightarrow>
               HandleDirList_loop fs path es
                 (acc @ [newItem (fi_Name e) (Format_listing (fi_ModTime e)) info]))"
  by (simp add: entryInfo_def Let_def split: sum.splits)

lemma loop_append:
  "HandleDirList_loop fs path (xs @ ys) acc =
     (case HandleDirList_loop fs path xs acc of
        Loop_return r \<Rightarrow> Loop_return r
      | Loop_done items \<Rightarrow> HandleDirList_loop fs path ys items)"
proof (induction xs arbitrary: acc)
  case Nil
  show ?case by simp
next
  case (Cons e xs)
  show ?case
    unfolding append_Cons loop_step
    by (simp add: Cons.IH split: sum.splits option.splits)
qed

lemma loop_done_items:
  assumes "HandleDirList_loop fs path es acc = Loop_done items"
  shows "\<exists>new. items = acc @ new \<and>
           (\<forall>it \<in> set new. \<exists>e \<in> set es. \<exists>info.
               entryInfo fs path e = Inr (Some info) \<and>
               it = newItem (fi_Name e) (Format_listing (fi_ModTime e)) info)"
  using assms
proof (induction es arbitrary: acc)
  case Nil
  then show ?case by simp
next
  case (Cons e es)
  from Cons.prems have ne: "fi_Name e \<noteq> ''index.html''"
    unfolding loop_step by (auto split: if_splits)
  show ?case
  proof (cases "entryInfo fs path e")
    case (Inl err)
    with Cons.prems ne show ?thesis unfolding loop_step by simp
  next
    case (Inr r)
    show ?thesis
    proof (cases r)
      case None
      with Inr Cons.prems ne have "HandleDirList_loop fs path es acc = Loop_done items"
        unfolding loop_step by simp
      from Cons.IH[OF this] show ?thesis by auto
    next
      case (Some info)
      let ?it = "newItem (fi_Name e) (Format_listing (fi_ModTime e)) info"
      from Some Inr Cons.prems ne
      have "HandleDirList_loop fs path es (acc @ [?it]) = Loop_done items"
        unfolding loop_step by simp
      from Cons.IH[OF this] obtain new where
        n: "items = (acc @ [?it]) @ new"
        "\<forall>it \<in> set new. \<exists>e \<in> set es. \<exists>info.
               entryInfo fs path e = Inr (Some info) \<and>
               it = newItem (fi_Name e) (Format_listing (fi_ModTime e)) info"
        by blast
      have "items = acc @ (?it # new)" using n(1) by simp
      moreover have "\<forall>it \<in> set (?it # new). \<exists>e \<in> set (e # es). \<exists>info.
               entryInfo fs path e = Inr (Some info) \<and>
               it = newItem (fi_Name e) (Format_listing (fi_ModTime e)) info"
        using n(2) Inr Some by auto
      ultimately show ?thesis by blast
    qed
  qed
qed

section \<open>The order of the items\<close>

lemma Less_cases:
  "Less a b \<longleftrightarrow>
     (IsDir a \<and> \<not> IsDir b) \<or>
     (IsDir a = IsDir b \<and> hidden a \<and> \<not> hidden b) \<or>
     (IsDir a = IsDir b \<and> hidden a = hidden b \<and> Name a < Name b)"
  by (auto simp: Less_def Let_def hidden_def)

lemma Less_irrefl: "\<not> Less a a"
  by (simp add: Less_cases)

lemma Less_trans: "Less a b \<Longrightarrow> Less b c \<Longrightarrow> Less a c"
  unfolding Less_cases by (elim disjE conjE) auto

lemma Less_asym: "Less a b \<Longrightarrow> \<not> Less b a"
  using Less_trans Less_irrefl by blast

lemma Less_negtrans: "\<not> Less a b \<Longrightarrow> \<not> Less b c \<Longrightarrow> \<not> Less a c"
  unfolding Less_cases by (cases "IsDir a"; cases "IsDir b"; cases "IsDir c"; cases "hidden a"; cases "hidden b"; cases "hidden c") auto

lemma Less_total: "Less a b \<or> Less b a \<or> (IsDir a = IsDir b \<and> Name a = Name b)"
  unfolding Less_cases hidden_def by (cases "Name a < Name b") auto

lemma set_insertItem: "set (insertItem x ys) = insert x (set ys)"
  by (induction ys) auto

lemma mset_insertItem: "mset (insertItem x ys) = add_mset x (mset ys)"
  by (induction ys) auto

lemma sorted_insertItem:
  "sorted_wrt (\<lambda>a b. \<not> Less b a) ys \<Longrightarrow> sorted_wrt (\<lambda>a b. \<not> Less b a) (insertItem x ys)"
proof (induction ys)
  case Nil
  show ?case by simp
next
  case (Cons y ys)
  show ?case
  proof (cases "Less x y")
    case True
    have "\<forall>z \<in> set ys. \<not> Less z x"
    proof
      fix z assume "z \<in> set ys"
      with Cons.prems have "\<not> Less z y" by simp
      moreover from True have "\<not> Less y x" by (rule Less_asym)
      ultimately show "\<not> Less z x" by (rule Less_negtrans)
    qed
    with True Cons.prems show ?thesis by (simp add: Less_asym)
  next
    case False
    with Cons show ?thesis by (auto simp: set_insertItem)
  qed
qed

lemma insertionSort_snoc: "insertionSort (xs @ [x]) = insertItem x (insertionSort xs)"
  by (simp add: insertionSort_def)

lemma mset_insertionSort: "mset (insertionSort xs) = mset xs"
  by (induction xs rule: rev_induct) (simp_all add: insertionSort_snoc mset_insertItem, simp add: insertionSort_def)

lemma sorted_insertionSort: "sorted_wrt (\<lambda>a b. \<not> Less b a) (insertionSort xs)"
  by (induction xs rule: rev_induct) (simp_all add: insertionSort_snoc sorted_insertItem, simp add: insertionSort_def)

lemma Less_of_distinct:
  assumes "Name a \<noteq> Name b" "\<not> Less b a"
  shows "Less a b"
  using Less_total[of a b] assms by auto

lemma strict_sorted_of_distinct:
  "distinct (map Name ys) \<Longrightarrow> sorted_wrt (\<lambda>a b. \<not> Less b a) ys \<Longrightarrow> sorted_wrt Less ys"
  by (induction ys) (auto intro: Less_of_distinct)

lemma sorted_wrt_Less_unique:
  "sorted_wrt Less xs \<Longrightarrow> sorted_wrt Less ys \<Longrightarrow> set xs = set ys \<Longrightarrow> xs = ys"
proof (induction xs arbitrary: ys)
  case Nil
  then show ?case by simp
next
  case (Cons x xs)
  then obtain y ys' where ys: "ys = y # ys'" by (cases ys) auto
  from Cons.prems have x_min: "\<forall>z \<in> set xs. Less x z" and sx: "sorted_wrt Less xs" by simp_all
  from Cons.prems ys have y_min: "\<forall>z \<in> set ys'. Less y z" and sy: "sorted_wrt Less ys'" by simp_all
  have x_notin: "x \<notin> set xs" using x_min Less_irrefl by blast
  have y_notin: "y \<notin> set ys'" using y_min Less_irrefl by blast
  have "x = y"
  proof (rule ccontr)
    assume neq: "x \<noteq> y"
    from Cons.prems(3) ys have "x \<in> set (y # ys')" by auto
    with neq have "Less y x" using y_min by auto
    moreover from Cons.prems(3) ys have "y \<in> set (x # xs)" by auto
    with neq have "Less x y" using x_min by auto
    ultimately show False using Less_asym by blast
  qed
  moreover have "set xs = set ys'"
    using Cons.prems(3) ys x_notin y_notin \<open>x = y\<close> by auto
  ultimately show ?case using Cons.IH[OF sx sy] ys by simp
qed

lemma sorted_wrt_nth:
  "sorted_wrt P ys \<Longrightarrow> i < j \<Longrightarrow> j < length ys \<Longrightarrow> P (ys ! i) (ys ! j)"
  by (simp add: sorted_wrt_iff_nth_less)

lemma not_Less_cases:
  "\<not> Less b a \<longleftrightarrow>
     (IsDir a \<and> \<not> IsDir b) \<or>
     (IsDir a = IsDir b \<and> hidden a \<and> \<not> hidden b) \<or>
     (IsDir a = IsDir b \<and> hidden a = hidden b \<and> Name a \<le> Name b)"
  unfolding Less_cases by auto

section \<open>Cleaning and joining paths\<close>

lemma fields_nonempty: "splitSep s \<noteq> []"
  by (induction s) (auto split: list.splits)

lemma fields_append: "splitSep (a @ CHR ''/'' # b) = splitSep a @ splitSep b"
proof (induction a)
  case Nil
  show ?case by simp
next
  case (Cons c a)
  show ?case
  proof (cases "c = CHR ''/''")
    case True
    with Cons show ?thesis by simp
  next
    case False
    obtain f fs where ff: "splitSep a = f # fs" using fields_nonempty[of a] by (cases "splitSep a") auto
    with False Cons show ?thesis by simp
  qed
qed

lemma fields_no_sep: "el \<in> set (splitSep s) \<Longrightarrow> CHR ''/'' \<notin> set el"
proof (induction s arbitrary: el)
  case Nil
  then show ?case by simp
next
  case (Cons c s)
  obtain f fs where ff: "splitSep s = f # fs" using fields_nonempty[of s] by (cases "splitSep s") auto
  show ?case
  proof (cases "c = CHR ''/''")
    case True
    with Cons show ?thesis by auto
  next
    case False
    with Cons.prems ff have "el = c # f \<or> el \<in> set fs" by auto
    then show ?thesis
    proof
      assume "el = c # f"
      moreover have "CHR ''/'' \<notin> set f" using Cons.IH[of f] ff by simp
      ultimately show ?thesis using False by auto
    next
      assume "el \<in> set fs"
      then show ?thesis using Cons.IH[of el] ff by simp
    qed
  qed
qed

lemma fields_plain_word: "CHR ''/'' \<notin> set el \<Longrightarrow> splitSep el = [el]"
  by (induction el) auto

lemma fields_joinSep:
  "es \<noteq> [] \<Longrightarrow> \<forall>el \<in> set es. CHR ''/'' \<notin> set el \<Longrightarrow> splitSep (joinSep es) = es"
proof (induction es rule: joinSep.induct)
  case 1
  then show ?case by simp
next
  case (2 e)
  then show ?case by (simp add: fields_plain_word)
next
  case (3 e v va)
  then show ?case by (simp add: fields_append fields_plain_word)
qed

lemma cleanStep_rooted_plain:
  "\<forall>el \<in> set out. plain el \<Longrightarrow> CHR ''/'' \<notin> set el \<Longrightarrow> \<forall>x \<in> set (cleanStep True out el). plain x"
  by (auto simp: cleanStep_def plain_def dest: in_set_butlastD)

lemma foldl_cleanStep_rooted_plain:
  "\<forall>el \<in> set out. plain el \<Longrightarrow> \<forall>el \<in> set els. CHR ''/'' \<notin> set el \<Longrightarrow>
     \<forall>x \<in> set (foldl (cleanStep True) out els). plain x"
proof (induction els arbitrary: out)
  case Nil
  then show ?case by simp
next
  case (Cons el els)
  have "\<forall>x \<in> set (cleanStep True out el). plain x"
    using cleanStep_rooted_plain[of out el] Cons.prems by simp
  then show ?case using Cons by simp
qed

lemma cleanStep_plain: "plain el \<Longrightarrow> cleanStep r out el = out @ [el]"
  by (simp add: cleanStep_def plain_def)

lemma foldl_cleanStep_plain:
  "\<forall>el \<in> set els. plain el \<Longrightarrow> foldl (cleanStep r) out els = out @ els"
  by (induction els arbitrary: out) (simp_all add: cleanStep_plain)

lemma cleanStep_empty: "cleanStep r out [] = out"
  by (simp add: cleanStep_def)

lemma isRooted_slash: "isRooted (CHR ''/'' # p)"
  by (simp add: isRooted_def)

lemma cleanElems_rooted_plain: "\<forall>x \<in> set (cleanElems (CHR ''/'' # p)). plain x"
  unfolding cleanElems_def
  using foldl_cleanStep_rooted_plain[of "[]" "splitSep (CHR ''/'' # p)"] fields_no_sep[of _ "CHR ''/'' # p"]
  by (simp add: isRooted_slash)

lemma Clean_rooted: "filepath_Clean (CHR ''/'' # p) = CHR ''/'' # joinSep (cleanElems (CHR ''/'' # p))"
  by (simp add: filepath_Clean_def isRooted_slash)

text \<open>Cleaning a path followed by a separator and a cleaned rooted path.\<close>

lemma cleanElems_join:
  assumes "\<forall>el \<in> set es. plain el" and "root \<noteq> []"
  shows "cleanElems (root @ CHR ''/'' # CHR ''/'' # joinSep es) = cleanElems root @ es"
proof -
  let ?p = "root @ CHR ''/'' # CHR ''/'' # joinSep es"
  have r: "isRooted ?p = isRooted root"
    using assms(2) by (cases root) (simp_all add: isRooted_def)
  have f: "splitSep ?p = splitSep root @ [] # splitSep (joinSep es)"
    by (simp add: fields_append)
  have tail: "foldl (cleanStep b) out (splitSep (joinSep es)) = out @ es" for b out
  proof (cases "es = []")
    case True
    then show ?thesis by (simp add: cleanStep_empty)
  next
    case False
    with assms have "splitSep (joinSep es) = es"
      by (intro fields_joinSep) (auto simp: plain_def)
    with assms show ?thesis by (simp add: foldl_cleanStep_plain)
  qed
  show ?thesis
    unfolding cleanElems_def r f by (simp add: cleanStep_empty tail)
qed

text \<open>
  C6. The path looked up for a request is the configured root joined with the cleaned
  request path. Cleaning the request path, made rooted by a leading \<open>/\<close>, leaves only
  plain elements: none is empty, \<open>.\<close> or \<open>..\<close>. For a rooted root, as \<open>main\<close> configures
  it, the path looked up consists of the elements of the cleaned root followed by those
  plain elements, so it stays inside the root.
\<close>

theorem Handle_path_within_root:
  assumes "isRooted (Root h)"
  shows "\<exists>es. filepath_Clean (CHR ''/'' # Param_filepath req) = CHR ''/'' # joinSep es
           \<and> (\<forall>el \<in> set es. el \<noteq> [] \<and> el \<noteq> ''.'' \<and> el \<noteq> ''..'' \<and> CHR ''/'' \<notin> set el)
           \<and> filepath_Clean (Root h) = CHR ''/'' # joinSep (cleanElems (Root h))
           \<and> Handle_path h req = CHR ''/'' # joinSep (cleanElems (Root h) @ es)"
proof -
  let ?es = "cleanElems (CHR ''/'' # Param_filepath req)"
  have pl: "\<forall>el \<in> set ?es. plain el" by (rule cleanElems_rooted_plain)
  have ne: "Root h \<noteq> []" using assms by (simp add: isRooted_def)
  have c: "filepath_Clean (CHR ''/'' # Param_filepath req) = CHR ''/'' # joinSep ?es"
    by (rule Clean_rooted)
  have j: "joinSep [Root h, CHR ''/'' # joinSep ?es] = Root h @ CHR ''/'' # CHR ''/'' # joinSep ?es"
    by simp
  have rooted: "isRooted (Root h @ CHR ''/'' # CHR ''/'' # joinSep ?es)"
    using assms by (cases "Root h") (simp_all add: isRooted_def)
  have "Handle_path h req = filepath_Clean (Root h @ CHR ''/'' # CHR ''/'' # joinSep ?es)"
    using ne by (simp add: Handle_path_def filepath_Join_def filepath_FromSlash_def c)
  also have "\<dots> = CHR ''/'' # joinSep (cleanElems (Root h) @ ?es)"
    using rooted by (simp add: filepath_Clean_def cleanElems_join[OF pl ne])
  finally have hp: "Handle_path h req = CHR ''/'' # joinSep (cleanElems (Root h) @ ?es)" .
  have cr: "filepath_Clean (Root h) = CHR ''/'' # joinSep (cleanElems (Root h))"
    using assms ne by (simp add: filepath_Clean_def)
  show ?thesis using c pl hp cr unfolding plain_def by blast
qed

theorem Handle_path_within_root_witness:
  "isRooted (Root handler_example) \<and>
   (\<exists>es. (\<forall>el \<in> set es. el \<noteq> ''..'') \<and>
      Handle_path handler_example request_traversal =
        CHR ''/'' # joinSep (cleanElems (Root handler_example) @ es)) \<and>
   Handle_path handler_example request_traversal = ''/srv/etc/passwd''"
proof -
  have r: "isRooted (Root handler_example)"
    by (simp add: handler_example_def isRooted_def)
  from Handle_path_within_root[OF r, of request_traversal]
  have e: "\<exists>es. (\<forall>el \<in> set es. el \<noteq> ''..'') \<and>
      Handle_path handler_example request_traversal =
        CHR ''/'' # joinSep (cleanElems (Root handler_example) @ es)"
    by blast
  have v: "Handle_path handler_example request_traversal = ''/srv/etc/passwd''"
    by (simp add: Handle_path_def handler_example_def request_traversal_def filepath_Join_def
        filepath_FromSlash_def filepath_Clean_def cleanElems_def isRooted_def cleanStep_def)
  from r e v show ?thesis by blast
qed

section \<open>The rendered line of an entry\<close>

lemma listed_item:
  assumes "HandleDirList_loop fs path itemsAll [] = Loop_done items" and "it \<in> set items"
  shows "\<exists>e \<in> set itemsAll. \<exists>info.
           entryInfo fs path e = Inr (Some info) \<and>
           it = newItem (fi_Name e) (Format_listing (fi_ModTime e)) info"
  using loop_done_items[OF assms(1)] assms(2) by auto


lemma Formatted_newItem_split:
  \<open>\<exists>rest. Formatted (newItem n mt fi) =
     ''<a href="'' @ Name (newItem n mt fi) @ ''">'' @
       formattedName (Name (newItem n mt fi)) @ ''</a>'' @ rest\<close>
  by (simp add: Formatted_newItem Sprintf_line_def padRight_def)


lemma formattedName_short:
  "length name \<le> 50 \<Longrightarrow> formattedName name = name"
  by (simp add: formattedName_def)


lemma accented_name_not_index: "accented_name \<noteq> ''index.html''"
  by code_simp

lemma loop_accented_name:
  "HandleDirList_loop fs_example ''/srv'' [regularFile accented_name 7 time_b] [] =
     Loop_done [newItem accented_name (Format_listing time_b)
                  (regularFile accented_name 7 time_b)]"
  by (simp add: regularFile_def Let_def accented_name_not_index)

text \<open>
  C7. The code departs from the claim on names with characters of more than one byte:
  \<open>len(formattedName) > 50\<close> and \<open>formattedName[:47]\<close> count bytes. A file whose name is 26
  characters of two bytes each has 52 bytes. It is listed with its whole name in the
  \<open>href\<close>, but the name shown is not the name, although the name has no more than 50
  characters: it is the first 47 bytes, that is 23 characters and the first byte of the
  24th, followed by \<open>..>\<close>. The name shown counts as 27 runes, the cut byte as one.
\<close>

theorem truncation_counts_bytes:
  \<open>RuneCountInString accented_name = 26 \<and>
   length accented_name = 52 \<and>
   HandleDirList_loop fs_example ''/srv'' [regularFile accented_name 7 time_b] [] =
     Loop_done [newItem accented_name (Format_listing time_b)
                  (regularFile accented_name 7 time_b)] \<and>
   Name (newItem accented_name (Format_listing time_b) (regularFile accented_name 7 time_b)) =
     accented_name \<and>
   (\<exists>rest. Formatted (newItem accented_name (Format_listing time_b)
                         (regularFile accented_name 7 time_b)) =
      ''<a href="'' @ accented_name @ ''">'' @
      (concat (replicate 23 [CHR 0xC3, CHR 0xA9]) @ [CHR 0xC3] @ ''..>'') @ ''</a>'' @ rest) \<and>
   formattedName accented_name =
     concat (replicate 23 [CHR 0xC3, CHR 0xA9]) @ [CHR 0xC3] @ ''..>'' \<and>
   formattedName accented_name \<noteq> accented_name \<and>
   RuneCountInString (formattedName accented_name) = 27\<close>
proof -
  let ?it = "newItem accented_name (Format_listing time_b) (regularFile accented_name 7 time_b)"
  have 1: "RuneCountInString accented_name = 26" by code_simp
  have 2: "length accented_name = 52" by code_simp
  have 4: "Name ?it = accented_name" by (simp add: Name_newItem regularFile_def)
  have 6: "formattedName accented_name =
     concat (replicate 23 [CHR 0xC3, CHR 0xA9]) @ [CHR 0xC3] @ ''..>''"
    by code_simp
  from Formatted_newItem_split[of accented_name "Format_listing time_b"
      "regularFile accented_name 7 time_b"]
  have 5: \<open>\<exists>rest. Formatted ?it =
      ''<a href="'' @ accented_name @ ''">'' @
      (concat (replicate 23 [CHR 0xC3, CHR 0xA9]) @ [CHR 0xC3] @ ''..>'') @ ''</a>'' @ rest\<close>
    unfolding 4 6 .
  have 7: "formattedName accented_name \<noteq> accented_name" by code_simp
  have 8: "RuneCountInString (formattedName accented_name) = 27" by code_simp
  show ?thesis by (intro conjI 1 2 loop_accented_name 4 5 6 7 8)
qed



section \<open>The order of a listing\<close>

lemma Sort_returns:
  "\<forall>it \<in> set items. Name it \<noteq> [] \<Longrightarrow> Sort items = Returns (insertionSort items)"
  by (auto simp: Sort_def Less_panics_def)

lemma loop_example:
  "HandleDirList_loop fs_example ''/srv'' entries_example [] = Loop_done items_example"
  by (simp add: entries_example_def items_example_def regularFile_def directory_def Let_def)

lemma Sort_example:
  "Sort items_example =
     Returns [newItem ''sub'' (Format_listing time_a) (directory ''sub'' time_a),
              newItem ''.hidden'' (Format_listing time_a) (regularFile ''.hidden'' 3 time_a),
              newItem ''b.txt'' (Format_listing time_b) (regularFile ''b.txt'' 10 time_b)]"
  by (simp add: Sort_def Less_panics_def insertionSort_def items_example_def Less_def
      Name_newItem IsDir_newItem regularFile_def directory_def)

text \<open>
  C3. Sorting a list of items with non-empty names (the names of directory entries are
  never empty) returns a rearrangement of the items in which, for any two positions,
  the earlier item is a directory and the later is not, or both are of the same kind
  and the earlier is hidden and the later is not, or both are of the same kind and
  equally hidden and the earlier name is not greater bytewise. \<open>Less\<close> is exactly that
  successive comparison; it is irreflexive and transitive, and two items are unordered
  only when they agree in kind and name. When the names are distinct the result is
  strictly ascending and it is the only arrangement of the items that is, so the order
  does not depend on how the library sorts. The root with the file \<open>b.txt\<close>, the file
  \<open>.hidden\<close> and the directory \<open>sub\<close> lists as \<open>sub/\<close>, \<open>.hidden\<close>, \<open>b.txt\<close>.
\<close>

theorem sort_is_strict_total_order:
  assumes "\<forall>it \<in> set items. Name it \<noteq> []"
  shows "(\<exists>ys. Sort items = Returns ys \<and> mset ys = mset items \<and>
           (\<forall>i j. i < j \<and> j < length ys \<longrightarrow>
              (IsDir (ys ! i) \<and> \<not> IsDir (ys ! j)) \<or>
              (IsDir (ys ! i) = IsDir (ys ! j) \<and> hidden (ys ! i) \<and> \<not> hidden (ys ! j)) \<or>
              (IsDir (ys ! i) = IsDir (ys ! j) \<and> hidden (ys ! i) = hidden (ys ! j) \<and>
                 Name (ys ! i) \<le> Name (ys ! j))) \<and>
           (distinct (map Name items) \<longrightarrow>
              sorted_wrt Less ys \<and>
              (\<forall>zs. mset zs = mset items \<and> sorted_wrt Less zs \<longrightarrow> zs = ys))) \<and>
         (\<forall>a b. Less a b \<longleftrightarrow>
              (IsDir a \<and> \<not> IsDir b) \<or>
              (IsDir a = IsDir b \<and> hidden a \<and> \<not> hidden b) \<or>
              (IsDir a = IsDir b \<and> hidden a = hidden b \<and> Name a < Name b)) \<and>
         (\<forall>a. \<not> Less a a) \<and>
         (\<forall>a b c. Less a b \<and> Less b c \<longrightarrow> Less a c) \<and>
         (\<forall>a b. Less a b \<or> Less b a \<or> (IsDir a = IsDir b \<and> Name a = Name b)) \<and>
         (\<exists>listed sortedItems.
            ioutil_ReadDir fs_example ''/srv'' = Inr entries_example \<and>
            map fi_Name entries_example = [''.hidden'', ''b.txt'', ''sub''] \<and>
            HandleDirList_loop fs_example ''/srv'' entries_example [] = Loop_done listed \<and>
            Sort listed = Returns sortedItems \<and>
            map Name sortedItems = [''sub/'', ''.hidden'', ''b.txt''])"
proof -
  let ?ys = "insertionSort items"
  have s: "Sort items = Returns ?ys" using assms by (rule Sort_returns)
  have m: "mset ?ys = mset items" by (rule mset_insertionSort)
  have w: "sorted_wrt (\<lambda>a b. \<not> Less b a) ?ys" by (rule sorted_insertionSort)
  have o: "\<forall>i j. i < j \<and> j < length ?ys \<longrightarrow>
              (IsDir (?ys ! i) \<and> \<not> IsDir (?ys ! j)) \<or>
              (IsDir (?ys ! i) = IsDir (?ys ! j) \<and> hidden (?ys ! i) \<and> \<not> hidden (?ys ! j)) \<or>
              (IsDir (?ys ! i) = IsDir (?ys ! j) \<and> hidden (?ys ! i) = hidden (?ys ! j) \<and>
                 Name (?ys ! i) \<le> Name (?ys ! j))"
  proof (intro allI impI)
    fix i j assume "i < j \<and> j < length ?ys"
    then have "\<not> Less (?ys ! j) (?ys ! i)"
      using sorted_wrt_nth[OF w, of i j] by simp
    then show "(IsDir (?ys ! i) \<and> \<not> IsDir (?ys ! j)) \<or>
              (IsDir (?ys ! i) = IsDir (?ys ! j) \<and> hidden (?ys ! i) \<and> \<not> hidden (?ys ! j)) \<or>
              (IsDir (?ys ! i) = IsDir (?ys ! j) \<and> hidden (?ys ! i) = hidden (?ys ! j) \<and>
                 Name (?ys ! i) \<le> Name (?ys ! j))"
      by (simp only: not_Less_cases)
  qed
  have u: "distinct (map Name items) \<longrightarrow>
              sorted_wrt Less ?ys \<and>
              (\<forall>zs. mset zs = mset items \<and> sorted_wrt Less zs \<longrightarrow> zs = ?ys)"
  proof
    assume d: "distinct (map Name items)"
    have "mset (map Name ?ys) = mset (map Name items)" using m by simp
    with d have "distinct (map Name ?ys)"
      using mset_eq_imp_distinct_iff by blast
    then have st: "sorted_wrt Less ?ys" using w by (rule strict_sorted_of_distinct)
    have "\<forall>zs. mset zs = mset items \<and> sorted_wrt Less zs \<longrightarrow> zs = ?ys"
    proof (intro allI impI)
      fix zs assume z: "mset zs = mset items \<and> sorted_wrt Less zs"
      then have "mset zs = mset ?ys" using m by simp
      then have "set zs = set ?ys" by (rule mset_eq_setD)
      with z st show "zs = ?ys" using sorted_wrt_Less_unique by blast
    qed
    with st show "sorted_wrt Less ?ys \<and>
              (\<forall>zs. mset zs = mset items \<and> sorted_wrt Less zs \<longrightarrow> zs = ?ys)" by simp
  qed
  have first: "\<exists>ys. Sort items = Returns ys \<and> mset ys = mset items \<and>
           (\<forall>i j. i < j \<and> j < length ys \<longrightarrow>
              (IsDir (ys ! i) \<and> \<not> IsDir (ys ! j)) \<or>
              (IsDir (ys ! i) = IsDir (ys ! j) \<and> hidden (ys ! i) \<and> \<not> hidden (ys ! j)) \<or>
              (IsDir (ys ! i) = IsDir (ys ! j) \<and> hidden (ys ! i) = hidden (ys ! j) \<and>
                 Name (ys ! i) \<le> Name (ys ! j))) \<and>
           (distinct (map Name items) \<longrightarrow>
              sorted_wrt Less ys \<and>
              (\<forall>zs. mset zs = mset items \<and> sorted_wrt Less zs \<longrightarrow> zs = ys))"
    by (rule exI[of _ "insertionSort items"]) (intro conjI s m o u)
  have cases: "\<forall>a b. Less a b \<longleftrightarrow>
              (IsDir a \<and> \<not> IsDir b) \<or>
              (IsDir a = IsDir b \<and> hidden a \<and> \<not> hidden b) \<or>
              (IsDir a = IsDir b \<and> hidden a = hidden b \<and> Name a < Name b)"
    using Less_cases by blast
  have irr: "\<forall>a. \<not> Less a a" using Less_irrefl by blast
  have tr: "\<forall>a b c. Less a b \<and> Less b c \<longrightarrow> Less a c" using Less_trans by blast
  have tot: "\<forall>a b. Less a b \<or> Less b a \<or> (IsDir a = IsDir b \<and> Name a = Name b)"
    using Less_total by blast
  have rd: "ioutil_ReadDir fs_example ''/srv'' = Inr entries_example"
    by (simp add: fs_example_def)
  have nm: "map fi_Name entries_example = [''.hidden'', ''b.txt'', ''sub'']"
    by (simp add: entries_example_def regularFile_def directory_def)
  have nms: "map Name [newItem ''sub'' (Format_listing time_a) (directory ''sub'' time_a),
              newItem ''.hidden'' (Format_listing time_a) (regularFile ''.hidden'' 3 time_a),
              newItem ''b.txt'' (Format_listing time_b) (regularFile ''b.txt'' 10 time_b)]
            = [''sub/'', ''.hidden'', ''b.txt'']"
    by (simp add: Name_newItem regularFile_def directory_def)
  have ex: "\<exists>listed sortedItems.
            ioutil_ReadDir fs_example ''/srv'' = Inr entries_example \<and>
            map fi_Name entries_example = [''.hidden'', ''b.txt'', ''sub''] \<and>
            HandleDirList_loop fs_example ''/srv'' entries_example [] = Loop_done listed \<and>
            Sort listed = Returns sortedItems \<and>
            map Name sortedItems = [''sub/'', ''.hidden'', ''b.txt'']"
    by (rule exI[of _ items_example],
        rule exI[of _ "[newItem ''sub'' (Format_listing time_a) (directory ''sub'' time_a),
              newItem ''.hidden'' (Format_listing time_a) (regularFile ''.hidden'' 3 time_a),
              newItem ''b.txt'' (Format_listing time_b) (regularFile ''b.txt'' 10 time_b)]"])
       (intro conjI rd nm loop_example Sort_example nms)
  show ?thesis by (intro conjI first cases irr tr tot ex)
qed

theorem sort_is_strict_total_order_witness:
  "Name (items_example ! 0) \<noteq> [] \<and> Name (items_example ! 1) \<noteq> [] \<and>
   Name (items_example ! 2) \<noteq> [] \<and> length items_example = 3 \<and>
   (\<exists>ys. Sort items_example = Returns ys \<and> mset ys = mset items_example \<and>
      sorted_wrt Less ys \<and> map Name ys = [''sub/'', ''.hidden'', ''b.txt''])"
proof -
  have n: "Name (items_example ! 0) \<noteq> [] \<and> Name (items_example ! 1) \<noteq> [] \<and>
      Name (items_example ! 2) \<noteq> [] \<and> length items_example = 3"
    by (simp add: items_example_def Name_newItem regularFile_def directory_def)
  have h: "\<forall>it \<in> set items_example. Name it \<noteq> []"
    by (simp add: items_example_def Name_newItem regularFile_def directory_def)
  have d: "distinct (map Name items_example)"
    by (simp add: items_example_def Name_newItem regularFile_def directory_def)
  from sort_is_strict_total_order[OF h, THEN conjunct1] obtain ys where
    a: "Sort items_example = Returns ys" and
    b: "mset ys = mset items_example" and
    c: "distinct (map Name items_example) \<longrightarrow>
          sorted_wrt Less ys \<and>
          (\<forall>zs. mset zs = mset items_example \<and> sorted_wrt Less zs \<longrightarrow> zs = ys)"
    by (elim exE conjE)
  from c d have st: "sorted_wrt Less ys" by simp
  from a have "ys = [newItem ''sub'' (Format_listing time_a) (directory ''sub'' time_a),
              newItem ''.hidden'' (Format_listing time_a) (regularFile ''.hidden'' 3 time_a),
              newItem ''b.txt'' (Format_listing time_b) (regularFile ''b.txt'' 10 time_b)]"
    unfolding Sort_example by simp
  then have nm: "map Name ys = [''sub/'', ''.hidden'', ''b.txt'']"
    by (simp add: Name_newItem regularFile_def directory_def)
  have "\<exists>ys. Sort items_example = Returns ys \<and> mset ys = mset items_example \<and>
      sorted_wrt Less ys \<and> map Name ys = [''sub/'', ''.hidden'', ''b.txt'']"
    by (rule exI[of _ ys]) (intro conjI a b st nm)
  with n show ?thesis by simp
qed

section \<open>The handler, case by case\<close>

lemma HandleDirList_ReadDir_error:
  assumes "ioutil_ReadDir fs path = Inl err"
  shows "HandleDirList fs path req c =
           (c @ (if \<not> HasSuffix (URL_Path req) ''/''
                 then [Redirect 301 (URL_Path req @ ''/'')] else []),
            Returns (False, Some err))"
  using assms by (simp add: HandleDirList_def Let_def)

lemma HandleDirList_loop_return:
  assumes "ioutil_ReadDir fs path = Inr itemsAll"
    and "HandleDirList_loop fs path itemsAll [] = Loop_return r"
  shows "HandleDirList fs path req c =
           (c @ (if \<not> HasSuffix (URL_Path req) ''/''
                 then [Redirect 301 (URL_Path req @ ''/'')] else []),
            Returns (False, r))"
  using assms by (simp add: HandleDirList_def Let_def)

lemma HandleDirList_listing:
  assumes "ioutil_ReadDir fs path = Inr itemsAll"
    and "HandleDirList_loop fs path itemsAll [] = Loop_done items"
    and "Sort items = Returns ys"
  shows "HandleDirList fs path req c =
           (c @ (if \<not> HasSuffix (URL_Path req) ''/''
                 then [Redirect 301 (URL_Path req @ ''/'')] else [])
              @ [Data 200 ''text/html''
                   (Sprintf_body (pathFrm req) (pathFrm req) (Items_Join ys ''\<newline>''))],
            Returns (True, None))"
  using assms by (simp add: HandleDirList_def Let_def)

lemma loop_done_iff:
  "(\<exists>items. HandleDirList_loop fs path es acc = Loop_done items) \<longleftrightarrow>
     (\<forall>e \<in> set es. fi_Name e \<noteq> ''index.html'' \<and> (\<exists>r. entryInfo fs path e = Inr r))"
proof (induction es arbitrary: acc)
  case Nil
  show ?case by simp
next
  case (Cons e es)
  show ?case
  proof (cases "fi_Name e = ''index.html''")
    case True
    then show ?thesis unfolding loop_step by simp
  next
    case False
    show ?thesis
    proof (cases "entryInfo fs path e")
      case (Inl err)
      with False show ?thesis unfolding loop_step by simp
    next
      case (Inr r)
      show ?thesis
      proof (cases r)
        case None
        with Inr False Cons.IH[of acc] show ?thesis unfolding loop_step by simp
      next
        case (Some info)
        with Inr False
          Cons.IH[of "acc @ [newItem (fi_Name e) (Format_listing (fi_ModTime e)) info]"]
        show ?thesis unfolding loop_step by simp
      qed
    qed
  qed
qed

lemma newItem_Name_nonempty: "n \<noteq> [] \<Longrightarrow> Name (newItem n mt fi) \<noteq> []"
  by (simp add: Name_newItem)

lemma loop_names_nonempty:
  assumes "HandleDirList_loop fs path es [] = Loop_done items"
    and "\<forall>e \<in> set es. fi_Name e \<noteq> []"
  shows "\<forall>it \<in> set items. Name it \<noteq> []"
proof
  fix it assume "it \<in> set items"
  from listed_item[OF assms(1) this] obtain e info where
    "e \<in> set es" "it = newItem (fi_Name e) (Format_listing (fi_ModTime e)) info" by blast
  with assms(2) show "Name it \<noteq> []" by (simp add: newItem_Name_nonempty)
qed

section \<open>Symbolic links\<close>

lemma Format_listing_time_a: "Format_listing time_a = ''05-Mar-2020 07:09''"
  by (simp add: Format_listing_def time_a_def zeroPad_def showNat.simps digit_def)

lemma Format_listing_time_b: "Format_listing time_b = ''25-Dec-2021 17:30''"
  by (simp add: Format_listing_def time_b_def zeroPad_def showNat.simps digit_def)

lemma Join_srv_ln: "filepath_Join [''/srv'', ''ln''] = ''/srv/ln''"
  by (simp add: filepath_Join_def filepath_Clean_def cleanElems_def isRooted_def cleanStep_def)

lemma Join_srv_ln2: "filepath_Join [''/srv'', ''ln2''] = ''/srv/ln2''"
  by (simp add: filepath_Join_def filepath_Clean_def cleanElems_def isRooted_def cleanStep_def)

lemma Join_srv_rel: "filepath_Join [''/srv'', ''rel''] = ''/srv/rel''"
  by (simp add: filepath_Join_def filepath_Clean_def cleanElems_def isRooted_def cleanStep_def)

lemma Join_srv_target: "filepath_Join [''/srv'', ''target.txt''] = ''/srv/target.txt''"
  by (simp add: filepath_Join_def filepath_Clean_def cleanElems_def isRooted_def cleanStep_def)

lemma Join_sub_link: "filepath_Join [''/srv/sub'', ''link''] = ''/srv/sub/link''"
  by (simp add: filepath_Join_def filepath_Clean_def cleanElems_def isRooted_def cleanStep_def)

lemma Join_sub_data: "filepath_Join [''/srv/sub'', ''data''] = ''/srv/sub/data''"
  by (simp add: filepath_Join_def filepath_Clean_def cleanElems_def isRooted_def cleanStep_def)

lemma entryInfo_ln:
  "entryInfo fs_links ''/srv'' (symlink ''ln'' 7 time_a) = Inr (Some (regularFile ''f'' 100 time_b))"
  by (simp add: entryInfo_def symlink_def Join_srv_ln fs_links_def)

lemma entryInfo_ln2:
  "entryInfo fs_links ''/srv'' (symlink ''ln2'' 7 time_a) = Inr (Some (symlink ''l'' 7 time_b))"
  by (simp add: entryInfo_def symlink_def[of "''ln2''"] Join_srv_ln2 fs_links_def)

lemma entryInfo_rel:
  "entryInfo fs_relative ''/srv'' (symlink ''rel'' 10 time_a) = Inr None"
  by (simp add: entryInfo_def symlink_def Join_srv_rel fs_relative_def IsNotExist_def)

lemma entryInfo_link:
  "entryInfo fs_relative ''/srv/sub'' (symlink ''link'' 4 time_a) =
     Inr (Some (regularFile ''data'' 55 time_a))"
  by (simp add: entryInfo_def symlink_def Join_sub_link fs_relative_def)

lemma entryInfo_plain: "\<not> fi_IsSymlink e \<Longrightarrow> entryInfo fs path e = Inr (Some e)"
  by (simp add: entryInfo_def)

lemma loop_ln:
  "HandleDirList_loop fs_links ''/srv'' [symlink ''ln'' 7 time_a] [] =
     Loop_done [newItem ''ln'' (Format_listing time_a) (regularFile ''f'' 100 time_b)]"
  unfolding loop_step entryInfo_ln by (simp add: symlink_def)

lemma loop_ln2:
  "HandleDirList_loop fs_links ''/srv'' [symlink ''ln2'' 7 time_a] [] =
     Loop_done [newItem ''ln2'' (Format_listing time_a) (symlink ''l'' 7 time_b)]"
  unfolding loop_step entryInfo_ln2 by (simp add: symlink_def)

lemma loop_relative_root:
  "HandleDirList_loop fs_relative ''/srv''
     [symlink ''rel'' 10 time_a, directory ''sub'' time_a,
      regularFile ''target.txt'' 100 time_b] [] =
   Loop_done [newItem ''sub'' (Format_listing time_a) (directory ''sub'' time_a),
              newItem ''target.txt'' (Format_listing time_b)
                (regularFile ''target.txt'' 100 time_b)]"
proof -
  have d: "entryInfo fs_relative ''/srv'' (directory ''sub'' time_a) =
             Inr (Some (directory ''sub'' time_a))"
    by (rule entryInfo_plain) (simp add: directory_def)
  have t: "entryInfo fs_relative ''/srv'' (regularFile ''target.txt'' 100 time_b) =
             Inr (Some (regularFile ''target.txt'' 100 time_b))"
    by (rule entryInfo_plain) (simp add: regularFile_def)
  show ?thesis
    unfolding loop_step entryInfo_rel d t
    by (simp add: symlink_def directory_def regularFile_def)
qed

lemma loop_relative_sub:
  "HandleDirList_loop fs_relative ''/srv/sub''
     [directory ''data'' time_b, symlink ''link'' 4 time_a] [] =
   Loop_done [newItem ''data'' (Format_listing time_b) (directory ''data'' time_b),
              newItem ''link'' (Format_listing time_a) (regularFile ''data'' 55 time_a)]"
proof -
  have d: "entryInfo fs_relative ''/srv/sub'' (directory ''data'' time_b) =
             Inr (Some (directory ''data'' time_b))"
    by (rule entryInfo_plain) (simp add: directory_def)
  show ?thesis
    unfolding loop_step entryInfo_link d
    by (simp add: symlink_def directory_def)
qed

text \<open>
  C1. The code departs from the claim. \<open>os.Lstat\<close> is called on the text of the link as
  \<open>os.Readlink\<close> returns it, not joined with the directory as the path given to
  \<open>os.Readlink\<close> is. The link \<open>rel\<close> in \<open>/srv\<close> has the text \<open>target.txt\<close> and its target
  \<open>/srv/target.txt\<close> exists, but the lookup of \<open>target.txt\<close> from the working directory
  finds nothing: the link is left out of the listing, where the claim has it rendered
  with the size, type and time of its target. Where the link is listed the claim fails
  too. The link \<open>ln\<close> to the file \<open>/data/f\<close> is listed with the modification time of the
  link, formatted before the link is resolved, not with that of the target. The link
  \<open>ln2\<close> to \<open>/data/l\<close>, itself a link to a directory, is listed as a file with the size
  of \<open>/data/l\<close>, since \<open>os.Lstat\<close> does not follow that second link, while the target
  that \<open>os.Stat\<close> finds is a directory.
\<close>

theorem symlink_target_metadata_not_used:
  "ioutil_ReadDir fs_relative ''/srv'' =
     Inr [symlink ''rel'' 10 time_a, directory ''sub'' time_a,
          regularFile ''target.txt'' 100 time_b] \<and>
   os_Readlink fs_relative (filepath_Join [''/srv'', ''rel'']) = Inr ''target.txt'' \<and>
   os_Stat fs_relative (filepath_Join [''/srv'', ''target.txt'']) =
     Inr (regularFile ''target.txt'' 100 time_b) \<and>
   os_Lstat fs_relative ''target.txt'' = Inl ErrNotExist \<and>
   HandleDirList_loop fs_relative ''/srv''
     [symlink ''rel'' 10 time_a, directory ''sub'' time_a,
      regularFile ''target.txt'' 100 time_b] [] =
   Loop_done [newItem ''sub'' (Format_listing time_a) (directory ''sub'' time_a),
              newItem ''target.txt'' (Format_listing time_b)
                (regularFile ''target.txt'' 100 time_b)] \<and>
   os_Readlink fs_links (filepath_Join [''/srv'', ''ln'']) = Inr ''/data/f'' \<and>
   os_Stat fs_links ''/data/f'' = Inr (regularFile ''f'' 100 time_b) \<and>
   HandleDirList_loop fs_links ''/srv'' [symlink ''ln'' 7 time_a] [] =
     Loop_done [newItem ''ln'' (Format_listing time_a) (regularFile ''f'' 100 time_b)] \<and>
   fi_ModTime (symlink ''ln'' 7 time_a) = time_a \<and>
   fi_ModTime (regularFile ''f'' 100 time_b) = time_b \<and>
   Format_listing time_a = ''05-Mar-2020 07:09'' \<and>
   Format_listing time_b = ''25-Dec-2021 17:30'' \<and>
   newItem ''ln'' (Format_listing time_a) (regularFile ''f'' 100 time_b) \<noteq>
     spec_symlink_item ''ln'' (regularFile ''f'' 100 time_b) \<and>
   os_Readlink fs_links (filepath_Join [''/srv'', ''ln2'']) = Inr ''/data/l'' \<and>
   os_Stat fs_links ''/data/l'' = Inr (directory ''l'' time_b) \<and>
   HandleDirList_loop fs_links ''/srv'' [symlink ''ln2'' 7 time_a] [] =
     Loop_done [newItem ''ln2'' (Format_listing time_a) (symlink ''l'' 7 time_b)] \<and>
   newItem ''ln2'' (Format_listing time_a) (symlink ''l'' 7 time_b) \<noteq>
     spec_symlink_item ''ln2'' (directory ''l'' time_b)"
proof -
  have 1: "ioutil_ReadDir fs_relative ''/srv'' =
     Inr [symlink ''rel'' 10 time_a, directory ''sub'' time_a,
          regularFile ''target.txt'' 100 time_b]"
    by (simp add: fs_relative_def)
  have 2: "os_Readlink fs_relative (filepath_Join [''/srv'', ''rel'']) = Inr ''target.txt''"
    by (simp add: Join_srv_rel fs_relative_def)
  have 3: "os_Stat fs_relative (filepath_Join [''/srv'', ''target.txt'']) =
     Inr (regularFile ''target.txt'' 100 time_b)"
    by (simp add: Join_srv_target fs_relative_def)
  have 4: "os_Lstat fs_relative ''target.txt'' = Inl ErrNotExist"
    by (simp add: fs_relative_def)
  have 5: "os_Readlink fs_links (filepath_Join [''/srv'', ''ln'']) = Inr ''/data/f''"
    by (simp add: Join_srv_ln fs_links_def)
  have 6: "os_Stat fs_links ''/data/f'' = Inr (regularFile ''f'' 100 time_b)"
    by (simp add: fs_links_def)
  have 7: "fi_ModTime (symlink ''ln'' 7 time_a) = time_a" by (simp add: symlink_def)
  have 8: "fi_ModTime (regularFile ''f'' 100 time_b) = time_b" by (simp add: regularFile_def)
  have "Formatted (newItem ''ln'' (Format_listing time_a) (regularFile ''f'' 100 time_b)) \<noteq>
        Formatted (newItem ''ln'' (Format_listing time_b) (regularFile ''f'' 100 time_b))"
    by (simp add: Formatted_newItem Sprintf_line_def Format_listing_time_a Format_listing_time_b)
  then have 9: "newItem ''ln'' (Format_listing time_a) (regularFile ''f'' 100 time_b) \<noteq>
        spec_symlink_item ''ln'' (regularFile ''f'' 100 time_b)"
    unfolding spec_symlink_item_def by (auto simp: regularFile_def)
  have 10: "os_Readlink fs_links (filepath_Join [''/srv'', ''ln2'']) = Inr ''/data/l''"
    by (simp add: Join_srv_ln2 fs_links_def)
  have 11: "os_Stat fs_links ''/data/l'' = Inr (directory ''l'' time_b)"
    by (simp add: fs_links_def)
  have "IsDir (newItem ''ln2'' (Format_listing time_a) (symlink ''l'' 7 time_b)) \<noteq>
        IsDir (spec_symlink_item ''ln2'' (directory ''l'' time_b))"
    by (simp add: spec_symlink_item_def IsDir_newItem symlink_def directory_def)
  then have 12: "newItem ''ln2'' (Format_listing time_a) (symlink ''l'' 7 time_b) \<noteq>
        spec_symlink_item ''ln2'' (directory ''l'' time_b)"
    by auto
  show ?thesis
    by (intro conjI 1 2 3 4 loop_relative_root 5 6 loop_ln 7 8 Format_listing_time_a
        Format_listing_time_b 9 10 11 loop_ln2 12)
qed

text \<open>
  C2. The code departs from the claim: the name of an item listed for a symbolic link
  does not always reflect the resolved target. The name is the link's own, and \<open>/\<close> is
  appended when the \<open>FileInfo\<close> held after the link block is a directory; that \<open>FileInfo\<close>
  is what \<open>os.Lstat\<close> gives for the text of the link. The link \<open>ln2\<close> points to \<open>/data/l\<close>,
  itself a link to a directory: it is listed as \<open>ln2\<close>, a file, although the target is
  a directory and \<open>IsDirectory\<close>, which uses \<open>os.Stat\<close>, takes a request for \<open>/srv/ln2\<close>
  as one for a directory. The link \<open>link\<close> in \<open>/srv/sub\<close> has the relative text \<open>data\<close> and
  points to the directory \<open>/srv/sub/data\<close>: it is listed as \<open>link\<close>, a file, from the
  file \<open>data\<close> of the working directory. In both listings the fragment of each item is
  the one stored when the item was built.
\<close>

theorem symlink_name_misses_target:
  "HandleDirList_loop fs_links ''/srv'' [symlink ''ln2'' 7 time_a] [] =
     Loop_done [newItem ''ln2'' (Format_listing time_a) (symlink ''l'' 7 time_b)] \<and>
   Name (newItem ''ln2'' (Format_listing time_a) (symlink ''l'' 7 time_b)) = ''ln2'' \<and>
   \<not> IsDir (newItem ''ln2'' (Format_listing time_a) (symlink ''l'' 7 time_b)) \<and>
   os_Readlink fs_links (filepath_Join [''/srv'', ''ln2'']) = Inr ''/data/l'' \<and>
   os_Stat fs_links ''/data/l'' = Inr (directory ''l'' time_b) \<and>
   IsDirectory fs_links (filepath_Join [''/srv'', ''ln2'']) = (True, None) \<and>
   ioutil_ReadDir fs_relative ''/srv/sub'' =
     Inr [directory ''data'' time_b, symlink ''link'' 4 time_a] \<and>
   HandleDirList_loop fs_relative ''/srv/sub''
     [directory ''data'' time_b, symlink ''link'' 4 time_a] [] =
   Loop_done [newItem ''data'' (Format_listing time_b) (directory ''data'' time_b),
              newItem ''link'' (Format_listing time_a) (regularFile ''data'' 55 time_a)] \<and>
   Name (newItem ''link'' (Format_listing time_a) (regularFile ''data'' 55 time_a)) = ''link'' \<and>
   \<not> IsDir (newItem ''link'' (Format_listing time_a) (regularFile ''data'' 55 time_a)) \<and>
   os_Readlink fs_relative (filepath_Join [''/srv/sub'', ''link'']) = Inr ''data'' \<and>
   os_Stat fs_relative (filepath_Join [''/srv/sub'', ''data'']) =
     Inr (directory ''data'' time_b) \<and>
   IsDirectory fs_relative (filepath_Join [''/srv/sub'', ''link'']) = (True, None)"
proof -
  have 1: "Name (newItem ''ln2'' (Format_listing time_a) (symlink ''l'' 7 time_b)) = ''ln2''"
    by (simp add: Name_newItem symlink_def)
  have 2: "\<not> IsDir (newItem ''ln2'' (Format_listing time_a) (symlink ''l'' 7 time_b))"
    by (simp add: IsDir_newItem symlink_def)
  have 3: "os_Readlink fs_links (filepath_Join [''/srv'', ''ln2'']) = Inr ''/data/l''"
    by (simp add: Join_srv_ln2 fs_links_def)
  have 4: "os_Stat fs_links ''/data/l'' = Inr (directory ''l'' time_b)"
    by (simp add: fs_links_def)
  have 5: "IsDirectory fs_links (filepath_Join [''/srv'', ''ln2'']) = (True, None)"
    by (simp add: Join_srv_ln2 IsDirectory_def fs_links_def directory_def)
  have 6: "ioutil_ReadDir fs_relative ''/srv/sub'' =
     Inr [directory ''data'' time_b, symlink ''link'' 4 time_a]"
    by (simp add: fs_relative_def)
  have 7: "Name (newItem ''link'' (Format_listing time_a) (regularFile ''data'' 55 time_a)) =
      ''link''"
    by (simp add: Name_newItem regularFile_def)
  have 8: "\<not> IsDir (newItem ''link'' (Format_listing time_a) (regularFile ''data'' 55 time_a))"
    by (simp add: IsDir_newItem regularFile_def)
  have 9: "os_Readlink fs_relative (filepath_Join [''/srv/sub'', ''link'']) = Inr ''data''"
    by (simp add: Join_sub_link fs_relative_def)
  have 10: "os_Stat fs_relative (filepath_Join [''/srv/sub'', ''data'']) =
     Inr (directory ''data'' time_b)"
    by (simp add: Join_sub_data fs_relative_def)
  have 11: "IsDirectory fs_relative (filepath_Join [''/srv/sub'', ''link'']) = (True, None)"
    by (simp add: Join_sub_link IsDirectory_def fs_relative_def directory_def)
  show ?thesis
    by (intro conjI loop_ln2 1 2 3 4 5 6 loop_relative_sub 7 8 9 10 11)
qed

section \<open>Redirect, listing and index file\<close>

lemma Handle_dir:
  assumes "IsDirectory fs (Handle_path h req) = (True, None)"
  shows "Handle h fs req [] =
     (case HandleDirList fs (Handle_path h req) req (cacheHeaders h) of
        (c2, Panics) \<Rightarrow> (c2, Panics)
      | (c2, Returns (ok, Some err)) \<Rightarrow> (c2 @ [AbortWithError 500 err], Returns ())
      | (c2, Returns (ok, None)) \<Rightarrow>
          if \<not> ok
          then (c2 @ (if ContentType h \<noteq> [] then [Header_Add ''Content-Type'' (ContentType h)]
                      else []) @ [ServeHTTP], Returns ())
          else (c2, Returns ()))"
  using assms
  by (cases "Cache h")
     (auto simp: Handle_def Let_def cacheHeaders_def split: prod.splits outcome.splits option.splits)

lemma HandleDirList_starts:
  "\<exists>after r. HandleDirList fs path req c =
     (c @ (if \<not> HasSuffix (URL_Path req) ''/''
           then [Redirect 301 (URL_Path req @ ''/'')] else []) @ after, r)"
  by (auto simp: HandleDirList_def Let_def split: sum.splits loop_result.splits outcome.splits)

lemma Handle_dir_starts:
  assumes "IsDirectory fs (Handle_path h req) = (True, None)"
  shows "\<exists>after. fst (Handle h fs req []) =
     cacheHeaders h @ (if \<not> HasSuffix (URL_Path req) ''/''
           then [Redirect 301 (URL_Path req @ ''/'')] else []) @ after"
proof -
  from HandleDirList_starts[of fs "Handle_path h req" req "cacheHeaders h"]
  obtain after r where
    d: "HandleDirList fs (Handle_path h req) req (cacheHeaders h) =
     (cacheHeaders h @ (if \<not> HasSuffix (URL_Path req) ''/''
           then [Redirect 301 (URL_Path req @ ''/'')] else []) @ after, r)"
    by blast
  show ?thesis
    unfolding Handle_dir[OF assms] d
    by (cases r) (auto split: option.splits)
qed

lemma Handle_dir_listing:
  assumes "IsDirectory fs (Handle_path h req) = (True, None)"
    and "ioutil_ReadDir fs (Handle_path h req) = Inr itemsAll"
    and "HandleDirList_loop fs (Handle_path h req) itemsAll [] = Loop_done items"
    and "Sort items = Returns sortedItems"
  shows "Handle h fs req [] =
     (cacheHeaders h @ (if \<not> HasSuffix (URL_Path req) ''/''
           then [Redirect 301 (URL_Path req @ ''/'')] else []) @
        [Data 200 ''text/html''
           (Sprintf_body (pathFrm req) (pathFrm req) (Items_Join sortedItems ''\<newline>''))],
      Returns ())"
  unfolding Handle_dir[OF assms(1)] HandleDirList_listing[OF assms(2,3,4)] by simp

lemma Handle_dir_return:
  assumes "IsDirectory fs (Handle_path h req) = (True, None)"
    and "ioutil_ReadDir fs (Handle_path h req) = Inr itemsAll"
    and "HandleDirList_loop fs (Handle_path h req) itemsAll [] = Loop_return r"
  shows "Handle h fs req [] =
     (cacheHeaders h @ (if \<not> HasSuffix (URL_Path req) ''/''
           then [Redirect 301 (URL_Path req @ ''/'')] else []) @
        (case r of
           Some err \<Rightarrow> [AbortWithError 500 err]
         | None \<Rightarrow> (if ContentType h \<noteq> [] then [Header_Add ''Content-Type'' (ContentType h)]
                     else []) @ [ServeHTTP]),
      Returns ())"
  unfolding Handle_dir[OF assms(1)] HandleDirList_loop_return[OF assms(2,3)]
  by (cases r) simp_all

lemma Handle_path_x: "Handle_path handler_example request_x = ''/srv/x''"
  by (simp add: Handle_path_def handler_example_def request_x_def filepath_Join_def
      filepath_FromSlash_def filepath_Clean_def cleanElems_def isRooted_def cleanStep_def)

lemma Handle_path_y: "Handle_path handler_example request_y = ''/srv/y''"
  by (simp add: Handle_path_def handler_example_def request_y_def filepath_Join_def
      filepath_FromSlash_def filepath_Clean_def cleanElems_def isRooted_def cleanStep_def)

lemma Handle_path_sub: "Handle_path handler_example request_sub = ''/srv/sub''"
  by (simp add: Handle_path_def handler_example_def request_sub_def filepath_Join_def
      filepath_FromSlash_def filepath_Clean_def cleanElems_def isRooted_def cleanStep_def)

lemma Handle_path_site: "Handle_path handler_example request_site = ''/srv/site''"
  by (simp add: Handle_path_def handler_example_def request_site_def filepath_Join_def
      filepath_FromSlash_def filepath_Clean_def cleanElems_def isRooted_def cleanStep_def)

lemma Join_x_a: "filepath_Join [''/srv/x'', ''a''] = ''/srv/x/a''"
  by (simp add: filepath_Join_def filepath_Clean_def cleanElems_def isRooted_def cleanStep_def)

lemma Join_y_a: "filepath_Join [''/srv/y'', ''a''] = ''/srv/y/a''"
  by (simp add: filepath_Join_def filepath_Clean_def cleanElems_def isRooted_def cleanStep_def)

lemma entryInfo_x_a:
  "entryInfo fs_links ''/srv/x'' (symlink ''a'' 12 time_a) = Inl ErrPermission"
  by (simp add: entryInfo_def symlink_def Join_x_a fs_links_def IsNotExist_def)

lemma entryInfo_y_a:
  "entryInfo fs_links ''/srv/y'' (symlink ''a'' 12 time_a) = Inl ErrPermission"
  by (simp add: entryInfo_def symlink_def Join_y_a fs_links_def IsNotExist_def)

lemma cacheHeaders_example: "cacheHeaders handler_example = []"
  by (simp add: cacheHeaders_def handler_example_def)

text \<open>
  C4 as stated fails. The directory \<open>/srv/x\<close> has no \<open>index.html\<close>; its only entry is a
  link to a path that \<open>os.Lstat\<close> may not examine. For a request for \<open>/x\<close> the handler
  sets the redirect and then aborts with the error; no page is written.
\<close>

theorem redirect_and_listing_counterexample:
  "\<not> HasSuffix (URL_Path request_x) ''/'' \<and>
   IsDirectory fs_links (Handle_path handler_example request_x) = (True, None) \<and>
   ioutil_ReadDir fs_links (Handle_path handler_example request_x) =
     Inr [symlink ''a'' 12 time_a] \<and>
   fi_Name (symlink ''a'' 12 time_a) \<noteq> ''index.html'' \<and>
   Handle handler_example fs_links request_x [] =
     ([Redirect 301 ''/x/'', AbortWithError 500 ErrPermission], Returns ())"
proof -
  have 1: "\<not> HasSuffix (URL_Path request_x) ''/''"
    by (simp add: request_x_def HasSuffix_def)
  have 2: "IsDirectory fs_links (Handle_path handler_example request_x) = (True, None)"
    unfolding Handle_path_x by (simp add: IsDirectory_def fs_links_def directory_def)
  have 3: "ioutil_ReadDir fs_links (Handle_path handler_example request_x) =
     Inr [symlink ''a'' 12 time_a]"
    unfolding Handle_path_x by (simp add: fs_links_def)
  have 4: "fi_Name (symlink ''a'' 12 time_a) \<noteq> ''index.html''" by (simp add: symlink_def)
  have l: "HandleDirList_loop fs_links (Handle_path handler_example request_x)
             [symlink ''a'' 12 time_a] [] = Loop_return (Some ErrPermission)"
    unfolding Handle_path_x loop_step entryInfo_x_a using 4 by simp
  have 5: "Handle handler_example fs_links request_x [] =
     ([Redirect 301 ''/x/'', AbortWithError 500 ErrPermission], Returns ())"
    unfolding Handle_dir_return[OF 2 3 l] cacheHeaders_example
    by (simp add: request_x_def HasSuffix_def)
  show ?thesis by (intro conjI 1 2 3 4 5)
qed

text \<open>
  C4, as amended. For a request whose path has no trailing slash and resolves to a
  directory, the handler first sets a 301 redirect to the path followed by a slash. When
  moreover \<open>ioutil.ReadDir\<close> succeeds, no entry is named \<open>index.html\<close>, and no call of
  \<open>os.Readlink\<close> or \<open>os.Lstat\<close> in the loop fails other than by \<open>os.Lstat\<close> reporting that
  the path does not exist, the handler then hands the page of the listing to \<open>c.Data\<close>
  in the same response, and makes no other call on it. The model records the calls and
  their arguments, not the status line that goes out, which the response writer fixes
  at the first write. (Entry names are taken to be non-empty, as directory entries are.)
\<close>

theorem redirect_and_listing:
  assumes "\<not> HasSuffix (URL_Path req) ''/''"
    and "IsDirectory fs (Handle_path h req) = (True, None)"
  shows "(\<exists>after. fst (Handle h fs req []) =
            cacheHeaders h @ Redirect 301 (URL_Path req @ ''/'') # after) \<and>
         (\<forall>itemsAll.
            ioutil_ReadDir fs (Handle_path h req) = Inr itemsAll \<and>
            (\<forall>e \<in> set itemsAll. fi_Name e \<noteq> [] \<and> fi_Name e \<noteq> ''index.html'' \<and>
               (\<exists>r. entryInfo fs (Handle_path h req) e = Inr r)) \<longrightarrow>
            (\<exists>items sortedItems.
               HandleDirList_loop fs (Handle_path h req) itemsAll [] = Loop_done items \<and>
               Sort items = Returns sortedItems \<and>
               Handle h fs req [] =
                 (cacheHeaders h @
                    [Redirect 301 (URL_Path req @ ''/''),
                     Data 200 ''text/html''
                       (Sprintf_body (pathFrm req) (pathFrm req)
                          (Items_Join sortedItems ''\<newline>''))],
                  Returns ())))"
proof (intro conjI allI impI)
  from Handle_dir_starts[OF assms(2)] assms(1)
  show "\<exists>after. fst (Handle h fs req []) =
            cacheHeaders h @ Redirect 301 (URL_Path req @ ''/'') # after"
    by simp
next
  fix itemsAll
  assume a: "ioutil_ReadDir fs (Handle_path h req) = Inr itemsAll \<and>
            (\<forall>e \<in> set itemsAll. fi_Name e \<noteq> [] \<and> fi_Name e \<noteq> ''index.html'' \<and>
               (\<exists>r. entryInfo fs (Handle_path h req) e = Inr r))"
  then have rd: "ioutil_ReadDir fs (Handle_path h req) = Inr itemsAll" by simp
  from a have "\<forall>e \<in> set itemsAll. fi_Name e \<noteq> ''index.html'' \<and>
               (\<exists>r. entryInfo fs (Handle_path h req) e = Inr r)" by simp
  then obtain items where
    l: "HandleDirList_loop fs (Handle_path h req) itemsAll [] = Loop_done items"
    using loop_done_iff[of fs "Handle_path h req" itemsAll "[]"] by blast
  from a have "\<forall>e \<in> set itemsAll. fi_Name e \<noteq> []" by simp
  with l have "\<forall>it \<in> set items. Name it \<noteq> []" by (rule loop_names_nonempty)
  then have s: "Sort items = Returns (insertionSort items)" by (rule Sort_returns)
  have hd: "Handle h fs req [] =
                 (cacheHeaders h @
                    [Redirect 301 (URL_Path req @ ''/''),
                     Data 200 ''text/html''
                       (Sprintf_body (pathFrm req) (pathFrm req)
                          (Items_Join (insertionSort items) ''\<newline>''))],
                  Returns ())"
    unfolding Handle_dir_listing[OF assms(2) rd l s] using assms(1) by simp
  show "\<exists>items sortedItems.
               HandleDirList_loop fs (Handle_path h req) itemsAll [] = Loop_done items \<and>
               Sort items = Returns sortedItems \<and>
               Handle h fs req [] =
                 (cacheHeaders h @
                    [Redirect 301 (URL_Path req @ ''/''),
                     Data 200 ''text/html''
                       (Sprintf_body (pathFrm req) (pathFrm req)
                          (Items_Join sortedItems ''\<newline>''))],
                  Returns ())"
    by (rule exI[of _ items], rule exI[of _ "insertionSort items"]) (intro conjI l s hd)
qed

theorem redirect_and_listing_witness:
  "\<not> HasSuffix (URL_Path request_sub) ''/'' \<and>
   IsDirectory fs_example (Handle_path handler_example request_sub) = (True, None) \<and>
   ioutil_ReadDir fs_example (Handle_path handler_example request_sub) =
     Inr [regularFile long_name 7 time_b] \<and>
   (\<exists>page. Handle handler_example fs_example request_sub [] =
      ([Redirect 301 ''/sub/'', Data 200 ''text/html'' page], Returns ()))"
proof -
  have 1: "\<not> HasSuffix (URL_Path request_sub) ''/''"
    by (simp add: request_sub_def HasSuffix_def)
  have 2: "IsDirectory fs_example (Handle_path handler_example request_sub) = (True, None)"
    unfolding Handle_path_sub by (simp add: IsDirectory_def fs_example_def directory_def)
  have 3: "ioutil_ReadDir fs_example (Handle_path handler_example request_sub) =
     Inr [regularFile long_name 7 time_b]"
    unfolding Handle_path_sub by (simp add: fs_example_def)
  have 4: "\<forall>e \<in> set [regularFile long_name 7 time_b].
             fi_Name e \<noteq> [] \<and> fi_Name e \<noteq> ''index.html'' \<and>
             (\<exists>r. entryInfo fs_example (Handle_path handler_example request_sub) e = Inr r)"
    by (simp add: regularFile_def long_name_def entryInfo_def)
  note t = redirect_and_listing[OF 1 2, THEN conjunct2, rule_format,
      of "[regularFile long_name 7 time_b]"]
  from t 3 4 obtain sortedItems where
    "Handle handler_example fs_example request_sub [] =
       (cacheHeaders handler_example @
          [Redirect 301 (URL_Path request_sub @ ''/''),
           Data 200 ''text/html''
             (Sprintf_body (pathFrm request_sub) (pathFrm request_sub)
                (Items_Join sortedItems ''\<newline>''))],
        Returns ())"
    by blast
  then have 5: "\<exists>page. Handle handler_example fs_example request_sub [] =
      ([Redirect 301 ''/sub/'', Data 200 ''text/html'' page], Returns ())"
    by (simp add: cacheHeaders_example request_sub_def)
  show ?thesis by (intro conjI 1 2 3 5)
qed

text \<open>
  C5. The code departs from the claim. The directory \<open>/srv/y\<close> holds an \<open>index.html\<close>, and
  before it, in the order of \<open>ioutil.ReadDir\<close>, a link to a path that \<open>os.Lstat\<close> may not
  examine. The loop looks at the link first and returns its error before it reaches
  \<open>index.html\<close>: a request for \<open>/y/\<close> is answered with the error 500 and the file server
  is never called, where the claim has the request fall through to the file server. No
  listing page is written. Without such a link before it, as in \<open>/srv/site\<close>, the request
  does fall through.
\<close>

theorem index_html_not_served:
  "IsDirectory fs_links (Handle_path handler_example request_y) = (True, None) \<and>
   ioutil_ReadDir fs_links (Handle_path handler_example request_y) =
     Inr [symlink ''a'' 12 time_a, regularFile ''index.html'' 20 time_a] \<and>
   fi_Name (regularFile ''index.html'' 20 time_a) = ''index.html'' \<and>
   Handle handler_example fs_links request_y [] =
     ([AbortWithError 500 ErrPermission], Returns ()) \<and>
   ServeHTTP \<notin> set (fst (Handle handler_example fs_links request_y [])) \<and>
   ioutil_ReadDir fs_example (Handle_path handler_example request_site) =
     Inr [regularFile ''a.txt'' 1 time_a, regularFile ''index.html'' 20 time_a] \<and>
   Handle handler_example fs_example request_site [] = ([ServeHTTP], Returns ())"
proof -
  have 1: "IsDirectory fs_links (Handle_path handler_example request_y) = (True, None)"
    unfolding Handle_path_y by (simp add: IsDirectory_def fs_links_def directory_def)
  have 2: "ioutil_ReadDir fs_links (Handle_path handler_example request_y) =
     Inr [symlink ''a'' 12 time_a, regularFile ''index.html'' 20 time_a]"
    unfolding Handle_path_y by (simp add: fs_links_def)
  have 3: "fi_Name (regularFile ''index.html'' 20 time_a) = ''index.html''"
    by (simp add: regularFile_def)
  have n: "fi_Name (symlink ''a'' 12 time_a) \<noteq> ''index.html''" by (simp add: symlink_def)
  have l: "HandleDirList_loop fs_links (Handle_path handler_example request_y)
             [symlink ''a'' 12 time_a, regularFile ''index.html'' 20 time_a] [] =
           Loop_return (Some ErrPermission)"
    unfolding Handle_path_y loop_step entryInfo_y_a using n by simp
  have 4: "Handle handler_example fs_links request_y [] =
     ([AbortWithError 500 ErrPermission], Returns ())"
    unfolding Handle_dir_return[OF 1 2 l] cacheHeaders_example
    by (simp add: request_y_def HasSuffix_def)
  have 5: "ServeHTTP \<notin> set (fst (Handle handler_example fs_links request_y []))"
    unfolding 4 by simp
  have s1: "IsDirectory fs_example (Handle_path handler_example request_site) = (True, None)"
    unfolding Handle_path_site by (simp add: IsDirectory_def fs_example_def directory_def)
  have 6: "ioutil_ReadDir fs_example (Handle_path handler_example request_site) =
     Inr [regularFile ''a.txt'' 1 time_a, regularFile ''index.html'' 20 time_a]"
    unfolding Handle_path_site by (simp add: fs_example_def)
  have a: "entryInfo fs_example ''/srv/site'' (regularFile ''a.txt'' 1 time_a) =
             Inr (Some (regularFile ''a.txt'' 1 time_a))"
    by (rule entryInfo_plain) (simp add: regularFile_def)
  have s2: "HandleDirList_loop fs_example (Handle_path handler_example request_site)
             [regularFile ''a.txt'' 1 time_a, regularFile ''index.html'' 20 time_a] [] =
           Loop_return None"
    unfolding Handle_path_site loop_step a by (simp add: regularFile_def)
  have 7: "Handle handler_example fs_example request_site [] = ([ServeHTTP], Returns ())"
    unfolding Handle_dir_return[OF s1 6 s2] cacheHeaders_example
    by (simp add: request_site_def HasSuffix_def handler_example_def)
  show ?thesis by (intro conjI 1 2 3 4 5 6 7)
qed

section \<open>Certificates and startup\<close>

lemma selfCert_Inr:
  assumes "selfCert env parent parentKey = Inr (cert, certByt, certKey)"
  shows "\<exists>serial.
           ecdsa_GenerateKey env P384 = Inr certKey \<and>
           rand_Int env (2 ^ 128) = Inr serial \<and>
           x509_CreateCertificate env (certTempl env serial)
             (case parent of None \<Rightarrow> certTempl env serial | Some p \<Rightarrow> p)
             (Public certKey)
             (case parent of None \<Rightarrow> Some certKey | Some p \<Rightarrow> parentKey) = Inr certByt \<and>
           x509_ParseCertificate env certByt = Inr cert"
  using assms
  by (auto simp: selfCert_def Let_def split: sum.splits)

lemma selfCert_Inl:
  assumes "selfCert env parent parentKey = Inl err"
  shows "ecdsa_GenerateKey env P384 = Inl err \<or>
         (\<exists>certKey. ecdsa_GenerateKey env P384 = Inr certKey \<and>
            (rand_Int env (2 ^ 128) = Inl err \<or>
             (\<exists>serial. rand_Int env (2 ^ 128) = Inr serial \<and>
                (x509_CreateCertificate env (certTempl env serial)
                   (case parent of None \<Rightarrow> certTempl env serial | Some p \<Rightarrow> p)
                   (Public certKey)
                   (case parent of None \<Rightarrow> Some certKey | Some p \<Rightarrow> parentKey) = Inl err \<or>
                 (\<exists>certByt. x509_CreateCertificate env (certTempl env serial)
                   (case parent of None \<Rightarrow> certTempl env serial | Some p \<Rightarrow> p)
                   (Public certKey)
                   (case parent of None \<Rightarrow> Some certKey | Some p \<Rightarrow> parentKey) = Inr certByt \<and>
                    x509_ParseCertificate env certByt = Inl err)))))"
  using assms
  by (auto simp: selfCert_def Let_def split: sum.splits)

lemma KeyUsage_value: "or KeyUsageKeyEncipherment KeyUsageDigitalSignature = 5"
  by (simp add: KeyUsageKeyEncipherment_def KeyUsageDigitalSignature_def)

text \<open>
  C8. Whenever \<open>selfCert\<close> returns a certificate, for the authority as for the leaf: its
  key is the one generated for the curve P-384; the serial number of the template is
  the number that \<open>rand.Int\<close> returned for the limit \<open>2^128\<close>, hence at least 0 and below
  \<open>2^128\<close> when \<open>rand.Int\<close> keeps to its range; \<open>NotBefore\<close> is the clock at the first
  reading less 24 hours and \<open>NotAfter\<close> the clock at the second reading plus 26280 hours;
  the key usage is key encipherment together with digital signature (bits 2 and 0,
  the value 5) and the extended usage is server authentication alone; the signature
  algorithm is ECDSA with SHA-256; and the bytes returned are those that
  \<open>x509.CreateCertificate\<close> made from this template, the certificate the one parsed from
  them.
\<close>

theorem selfCert_certificate_attributes:
  assumes "selfCert env parent parentKey = Inr (cert, certByt, certKey)"
  shows "\<exists>serial tmpl.
           tmpl = certTempl env serial \<and>
           ecdsa_GenerateKey env P384 = Inr certKey \<and>
           rand_Int env (2 ^ 128) = Inr serial \<and>
           ((\<forall>limit v. rand_Int env limit = Inr v \<longrightarrow> 0 \<le> v \<and> v < limit) \<longrightarrow>
              0 \<le> serial \<and> serial < 2 ^ 128) \<and>
           x509_CreateCertificate env tmpl
             (case parent of None \<Rightarrow> tmpl | Some p \<Rightarrow> p)
             (Public certKey)
             (case parent of None \<Rightarrow> Some certKey | Some p \<Rightarrow> parentKey) = Inr certByt \<and>
           x509_ParseCertificate env certByt = Inr cert \<and>
           SerialNumber tmpl = serial \<and>
           NotBefore tmpl = time_Now env 0 - 24 * (3600 * 1000000000) \<and>
           NotAfter tmpl = time_Now env 1 + 26280 * (3600 * 1000000000) \<and>
           KeyUsage tmpl = or KeyUsageKeyEncipherment KeyUsageDigitalSignature \<and>
           KeyUsage tmpl = 5 \<and>
           ExtKeyUsage tmpl = [ExtKeyUsageServerAuth] \<and>
           SignatureAlgorithm tmpl = ECDSAWithSHA256"
proof -
  from selfCert_Inr[OF assms] obtain serial where
    k: "ecdsa_GenerateKey env P384 = Inr certKey" and
    r: "rand_Int env (2 ^ 128) = Inr serial" and
    c: "x509_CreateCertificate env (certTempl env serial)
             (case parent of None \<Rightarrow> certTempl env serial | Some p \<Rightarrow> p)
             (Public certKey)
             (case parent of None \<Rightarrow> Some certKey | Some p \<Rightarrow> parentKey) = Inr certByt" and
    p: "x509_ParseCertificate env certByt = Inr cert"
    by blast
  have b: "(\<forall>limit v. rand_Int env limit = Inr v \<longrightarrow> 0 \<le> v \<and> v < limit) \<longrightarrow>
              0 \<le> serial \<and> serial < 2 ^ 128"
    using r by blast
  have s: "SerialNumber (certTempl env serial) = serial" by (simp add: certTempl_def)
  have nb: "NotBefore (certTempl env serial) = time_Now env 0 - 24 * (3600 * 1000000000)"
    by (simp add: certTempl_def time_Add_def time_Hour_def)
  have na: "NotAfter (certTempl env serial) = time_Now env 1 + 26280 * (3600 * 1000000000)"
    by (simp add: certTempl_def time_Add_def time_Hour_def)
  have ku: "KeyUsage (certTempl env serial) = or KeyUsageKeyEncipherment KeyUsageDigitalSignature"
    by (simp add: certTempl_def)
  have ku5: "KeyUsage (certTempl env serial) = 5"
    unfolding ku by (rule KeyUsage_value)
  have ek: "ExtKeyUsage (certTempl env serial) = [ExtKeyUsageServerAuth]"
    by (simp add: certTempl_def)
  have sa: "SignatureAlgorithm (certTempl env serial) = ECDSAWithSHA256"
    by (simp add: certTempl_def)
  show ?thesis
    by (rule exI[of _ serial], rule exI[of _ "certTempl env serial"])
       (intro conjI refl k r b c p s nb na ku ku5 ek sa)
qed

lemma selfCert_example_ca:
  "selfCert (mint_example 2) None None =
     Inr (\<lparr>SerialNumber = 12347, Subject_Organization = [''Pacur HTTP Server''],
            NotBefore = 1699913600000000000, NotAfter = 1794608000000000000,
            KeyUsage = 5, ExtKeyUsage = [ExtKeyUsageServerAuth],
            BasicConstraintsValid = True, SignatureAlgorithm = ECDSAWithSHA256\<rparr>,
          [2, 12347, 2], key_example 2)"
  by (simp add: selfCert_def mint_example_def Let_def certTempl_def key_example_def)

theorem selfCert_certificate_attributes_witness:
  "selfCert (mint_example 2) None None =
     Inr (\<lparr>SerialNumber = 12347, Subject_Organization = [''Pacur HTTP Server''],
            NotBefore = 1699913600000000000, NotAfter = 1794608000000000000,
            KeyUsage = 5, ExtKeyUsage = [ExtKeyUsageServerAuth],
            BasicConstraintsValid = True, SignatureAlgorithm = ECDSAWithSHA256\<rparr>,
          [2, 12347, 2], key_example 2) \<and>
   (\<exists>serial. rand_Int (mint_example 2) (2 ^ 128) = Inr serial \<and>
      NotBefore (certTempl (mint_example 2) serial) =
        time_Now (mint_example 2) 0 - 24 * (3600 * 1000000000) \<and>
      NotAfter (certTempl (mint_example 2) serial) =
        time_Now (mint_example 2) 1 + 26280 * (3600 * 1000000000) \<and>
      KeyUsage (certTempl (mint_example 2) serial) = 5)"
proof -
  from selfCert_certificate_attributes[OF selfCert_example_ca]
  have "\<exists>serial. rand_Int (mint_example 2) (2 ^ 128) = Inr serial \<and>
      NotBefore (certTempl (mint_example 2) serial) =
        time_Now (mint_example 2) 0 - 24 * (3600 * 1000000000) \<and>
      NotAfter (certTempl (mint_example 2) serial) =
        time_Now (mint_example 2) 1 + 26280 * (3600 * 1000000000) \<and>
      KeyUsage (certTempl (mint_example 2) serial) = 5"
    by blast
  with selfCert_example_ca show ?thesis by (rule conjI)
qed

lemma main_tls_Serve:
  assumes "main_tls env server = Serve server' listener"
  shows "server' = server \<and>
         (\<exists>caCert caByt caKey cert certByt certKey certKeyByte keypair.
            selfCert (mint_ca env) None None = Inr (caCert, caByt, caKey) \<and>
            selfCert (mint_leaf env) (Some caCert) (Some caKey) = Inr (cert, certByt, certKey) \<and>
            x509_MarshalECPrivateKey env certKey = Inr certKeyByte \<and>
            tls_X509KeyPair env
              (pem_EncodeToMemory env \<lparr>pem_Type = ''CERTIFICATE'', pem_Bytes = certByt\<rparr>)
              (pem_EncodeToMemory env
                 \<lparr>pem_Type = ''EC PRIVATE KEY'', pem_Bytes = certKeyByte\<rparr>) = Inr keypair \<and>
            tls_Listen env ''tcp'' (Addr server)
              \<lparr>MinVersion = VersionTLS12, MaxVersion = VersionTLS12,
                Certificates = [keypair]\<rparr> = Inr listener)"
  using assms
  by (auto simp: main_tls_def Let_def split: sum.splits prod.splits)

lemma main_tls_ends:
  "(\<exists>err. main_tls env server = Panic err) \<or> main_tls env server = Exit \<or>
   (\<exists>listener. main_tls env server = Serve server listener)"
  by (auto simp: main_tls_def Let_def split: sum.splits prod.splits)

lemma main_tls_ca_fails:
  "selfCert (mint_ca env) None None = Inl err \<Longrightarrow> main_tls env server = Panic err"
  by (simp add: main_tls_def)

lemma main_tls_leaf_fails:
  "selfCert (mint_ca env) None None = Inr (caCert, caByt, caKey) \<Longrightarrow>
   selfCert (mint_leaf env) (Some caCert) (Some caKey) = Inl err \<Longrightarrow>
   main_tls env server = Panic err"
  by (simp add: main_tls_def)

lemma main_tls_marshal_fails:
  "selfCert (mint_ca env) None None = Inr (caCert, caByt, caKey) \<Longrightarrow>
   selfCert (mint_leaf env) (Some caCert) (Some caKey) = Inr (cert, certByt, certKey) \<Longrightarrow>
   x509_MarshalECPrivateKey env certKey = Inl err \<Longrightarrow>
   main_tls env server = Panic err"
  by (simp add: main_tls_def)

lemma main_tls_keypair_fails:
  "selfCert (mint_ca env) None None = Inr (caCert, caByt, caKey) \<Longrightarrow>
   selfCert (mint_leaf env) (Some caCert) (Some caKey) = Inr (cert, certByt, certKey) \<Longrightarrow>
   x509_MarshalECPrivateKey env certKey = Inr certKeyByte \<Longrightarrow>
   tls_X509KeyPair env
     (pem_EncodeToMemory env \<lparr>pem_Type = ''CERTIFICATE'', pem_Bytes = certByt\<rparr>)
     (pem_EncodeToMemory env \<lparr>pem_Type = ''EC PRIVATE KEY'', pem_Bytes = certKeyByte\<rparr>) =
     Inl err \<Longrightarrow>
   main_tls env server = Exit"
  by (simp add: main_tls_def Let_def)

lemma main_tls_listen_fails:
  "selfCert (mint_ca env) None None = Inr (caCert, caByt, caKey) \<Longrightarrow>
   selfCert (mint_leaf env) (Some caCert) (Some caKey) = Inr (cert, certByt, certKey) \<Longrightarrow>
   x509_MarshalECPrivateKey env certKey = Inr certKeyByte \<Longrightarrow>
   tls_X509KeyPair env
     (pem_EncodeToMemory env \<lparr>pem_Type = ''CERTIFICATE'', pem_Bytes = certByt\<rparr>)
     (pem_EncodeToMemory env \<lparr>pem_Type = ''EC PRIVATE KEY'', pem_Bytes = certKeyByte\<rparr>) =
     Inr keypair \<Longrightarrow>
   tls_Listen env ''tcp'' (Addr server)
     \<lparr>MinVersion = VersionTLS12, MaxVersion = VersionTLS12, Certificates = [keypair]\<rparr> =
     Inl err \<Longrightarrow>
   main_tls env server = Panic err"
  by (simp add: main_tls_def Let_def)

lemma main_with_tls:
  assumes "flag_tls args = Some True"
  shows "(\<exists>err. snd (main env args) = Panic err) \<or>
         (\<exists>server. snd (main env args) = main_tls env server)"
  using assms by (auto simp: main_def Let_def split: sum.splits)

text \<open>
  C9. With the TLS flag set, \<open>main\<close> ends in a panic, in a plain return, or at
  \<open>server.Serve\<close> on the TLS listener, and never at \<open>server.ListenAndServe\<close>. It reaches
  \<open>server.Serve\<close> only when every step of the bootstrap has succeeded: both calls of
  \<open>selfCert\<close> (in each, the key generation, the serial number, the signing and the
  parsing), the marshalling of the leaf key, the loading of the key pair and the
  creation of the listener. In the TLS branch a failure of either \<open>selfCert\<close>, of the
  marshalling or of the listener makes \<open>main\<close> panic with that error, and a failure of
  the key pair makes it return; in each case the process ends before any request is
  accepted.
\<close>

theorem tls_bootstrap_failure_is_fatal:
  assumes "flag_tls args = Some True"
  shows "((\<exists>err. snd (main env args) = Panic err) \<or> snd (main env args) = Exit \<or>
          (\<exists>server listener. snd (main env args) = Serve server listener)) \<and>
         (\<forall>server listener. snd (main env args) = Serve server listener \<longrightarrow>
            (\<exists>caCert caByt caKey cert certByt certKey certKeyByte keypair.
               selfCert (mint_ca env) None None = Inr (caCert, caByt, caKey) \<and>
               selfCert (mint_leaf env) (Some caCert) (Some caKey) =
                 Inr (cert, certByt, certKey) \<and>
               x509_MarshalECPrivateKey env certKey = Inr certKeyByte \<and>
               tls_X509KeyPair env
                 (pem_EncodeToMemory env \<lparr>pem_Type = ''CERTIFICATE'', pem_Bytes = certByt\<rparr>)
                 (pem_EncodeToMemory env
                    \<lparr>pem_Type = ''EC PRIVATE KEY'', pem_Bytes = certKeyByte\<rparr>) = Inr keypair \<and>
               tls_Listen env ''tcp'' (Addr server)
                 \<lparr>MinVersion = VersionTLS12, MaxVersion = VersionTLS12,
                   Certificates = [keypair]\<rparr> = Inr listener \<and>
               (\<exists>caSerial serial.
                  ecdsa_GenerateKey (mint_ca env) P384 = Inr caKey \<and>
                  rand_Int (mint_ca env) (2 ^ 128) = Inr caSerial \<and>
                  x509_CreateCertificate (mint_ca env) (certTempl (mint_ca env) caSerial)
                    (certTempl (mint_ca env) caSerial) (Public caKey) (Some caKey) = Inr caByt \<and>
                  x509_ParseCertificate (mint_ca env) caByt = Inr caCert \<and>
                  ecdsa_GenerateKey (mint_leaf env) P384 = Inr certKey \<and>
                  rand_Int (mint_leaf env) (2 ^ 128) = Inr serial \<and>
                  x509_CreateCertificate (mint_leaf env) (certTempl (mint_leaf env) serial)
                    caCert (Public certKey) (Some caKey) = Inr certByt \<and>
                  x509_ParseCertificate (mint_leaf env) certByt = Inr cert))) \<and>
         (\<forall>server caCert caByt caKey cert certByt certKey certKeyByte keypair err.
            (selfCert (mint_ca env) None None = Inl err \<longrightarrow>
               main_tls env server = Panic err) \<and>
            (selfCert (mint_ca env) None None = Inr (caCert, caByt, caKey) \<and>
             selfCert (mint_leaf env) (Some caCert) (Some caKey) = Inl err \<longrightarrow>
               main_tls env server = Panic err) \<and>
            (selfCert (mint_ca env) None None = Inr (caCert, caByt, caKey) \<and>
             selfCert (mint_leaf env) (Some caCert) (Some caKey) = Inr (cert, certByt, certKey) \<and>
             x509_MarshalECPrivateKey env certKey = Inl err \<longrightarrow>
               main_tls env server = Panic err) \<and>
            (selfCert (mint_ca env) None None = Inr (caCert, caByt, caKey) \<and>
             selfCert (mint_leaf env) (Some caCert) (Some caKey) = Inr (cert, certByt, certKey) \<and>
             x509_MarshalECPrivateKey env certKey = Inr certKeyByte \<and>
             tls_X509KeyPair env
               (pem_EncodeToMemory env \<lparr>pem_Type = ''CERTIFICATE'', pem_Bytes = certByt\<rparr>)
               (pem_EncodeToMemory env
                  \<lparr>pem_Type = ''EC PRIVATE KEY'', pem_Bytes = certKeyByte\<rparr>) = Inl err \<longrightarrow>
               main_tls env server = Exit) \<and>
            (selfCert (mint_ca env) None None = Inr (caCert, caByt, caKey) \<and>
             selfCert (mint_leaf env) (Some caCert) (Some caKey) = Inr (cert, certByt, certKey) \<and>
             x509_MarshalECPrivateKey env certKey = Inr certKeyByte \<and>
             tls_X509KeyPair env
               (pem_EncodeToMemory env \<lparr>pem_Type = ''CERTIFICATE'', pem_Bytes = certByt\<rparr>)
               (pem_EncodeToMemory env
                  \<lparr>pem_Type = ''EC PRIVATE KEY'', pem_Bytes = certKeyByte\<rparr>) = Inr keypair \<and>
             tls_Listen env ''tcp'' (Addr server)
               \<lparr>MinVersion = VersionTLS12, MaxVersion = VersionTLS12,
                 Certificates = [keypair]\<rparr> = Inl err \<longrightarrow>
               main_tls env server = Panic err))"
proof (intro conjI allI impI)
  from main_with_tls[OF assms, of env]
  show "(\<exists>err. snd (main env args) = Panic err) \<or> snd (main env args) = Exit \<or>
          (\<exists>server listener. snd (main env args) = Serve server listener)"
  proof
    assume "\<exists>err. snd (main env args) = Panic err"
    then show ?thesis by simp
  next
    assume "\<exists>server. snd (main env args) = main_tls env server"
    then obtain server where m: "snd (main env args) = main_tls env server" by blast
    from main_tls_ends[of env server] show ?thesis unfolding m by blast
  qed
next
  fix server listener
  assume s: "snd (main env args) = Serve server listener"
  from main_with_tls[OF assms, of env] s obtain server0 where
    "main_tls env server0 = Serve server listener" by auto
  from main_tls_Serve[OF this] obtain caCert caByt caKey cert certByt certKey certKeyByte keypair
    where
      ca: "selfCert (mint_ca env) None None = Inr (caCert, caByt, caKey)" and
      lf: "selfCert (mint_leaf env) (Some caCert) (Some caKey) = Inr (cert, certByt, certKey)" and
      ms: "x509_MarshalECPrivateKey env certKey = Inr certKeyByte" and
      kp: "tls_X509KeyPair env
              (pem_EncodeToMemory env \<lparr>pem_Type = ''CERTIFICATE'', pem_Bytes = certByt\<rparr>)
              (pem_EncodeToMemory env
                 \<lparr>pem_Type = ''EC PRIVATE KEY'', pem_Bytes = certKeyByte\<rparr>) = Inr keypair" and
      ln: "tls_Listen env ''tcp'' (Addr server)
              \<lparr>MinVersion = VersionTLS12, MaxVersion = VersionTLS12,
                Certificates = [keypair]\<rparr> = Inr listener"
    by blast
  from selfCert_Inr[OF ca] obtain caSerial where
    c1: "ecdsa_GenerateKey (mint_ca env) P384 = Inr caKey" and
    c2: "rand_Int (mint_ca env) (2 ^ 128) = Inr caSerial" and
    c3: "x509_CreateCertificate (mint_ca env) (certTempl (mint_ca env) caSerial)
                    (certTempl (mint_ca env) caSerial) (Public caKey) (Some caKey) = Inr caByt" and
    c4: "x509_ParseCertificate (mint_ca env) caByt = Inr caCert"
    by auto
  from selfCert_Inr[OF lf] obtain serial where
    l1: "ecdsa_GenerateKey (mint_leaf env) P384 = Inr certKey" and
    l2: "rand_Int (mint_leaf env) (2 ^ 128) = Inr serial" and
    l3: "x509_CreateCertificate (mint_leaf env) (certTempl (mint_leaf env) serial)
                    caCert (Public certKey) (Some caKey) = Inr certByt" and
    l4: "x509_ParseCertificate (mint_leaf env) certByt = Inr cert"
    by auto
  have steps: "\<exists>caSerial serial.
                  ecdsa_GenerateKey (mint_ca env) P384 = Inr caKey \<and>
                  rand_Int (mint_ca env) (2 ^ 128) = Inr caSerial \<and>
                  x509_CreateCertificate (mint_ca env) (certTempl (mint_ca env) caSerial)
                    (certTempl (mint_ca env) caSerial) (Public caKey) (Some caKey) = Inr caByt \<and>
                  x509_ParseCertificate (mint_ca env) caByt = Inr caCert \<and>
                  ecdsa_GenerateKey (mint_leaf env) P384 = Inr certKey \<and>
                  rand_Int (mint_leaf env) (2 ^ 128) = Inr serial \<and>
                  x509_CreateCertificate (mint_leaf env) (certTempl (mint_leaf env) serial)
                    caCert (Public certKey) (Some caKey) = Inr certByt \<and>
                  x509_ParseCertificate (mint_leaf env) certByt = Inr cert"
    by (rule exI[of _ caSerial], rule exI[of _ serial]) (intro conjI c1 c2 c3 c4 l1 l2 l3 l4)
  show "\<exists>caCert caByt caKey cert certByt certKey certKeyByte keypair.
               selfCert (mint_ca env) None None = Inr (caCert, caByt, caKey) \<and>
               selfCert (mint_leaf env) (Some caCert) (Some caKey) =
                 Inr (cert, certByt, certKey) \<and>
               x509_MarshalECPrivateKey env certKey = Inr certKeyByte \<and>
               tls_X509KeyPair env
                 (pem_EncodeToMemory env \<lparr>pem_Type = ''CERTIFICATE'', pem_Bytes = certByt\<rparr>)
                 (pem_EncodeToMemory env
                    \<lparr>pem_Type = ''EC PRIVATE KEY'', pem_Bytes = certKeyByte\<rparr>) = Inr keypair \<and>
               tls_Listen env ''tcp'' (Addr server)
                 \<lparr>MinVersion = VersionTLS12, MaxVersion = VersionTLS12,
                   Certificates = [keypair]\<rparr> = Inr listener \<and>
               (\<exists>caSerial serial.
                  ecdsa_GenerateKey (mint_ca env) P384 = Inr caKey \<and>
                  rand_Int (mint_ca env) (2 ^ 128) = Inr caSerial \<and>
                  x509_CreateCertificate (mint_ca env) (certTempl (mint_ca env) caSerial)
                    (certTempl (mint_ca env) caSerial) (Public caKey) (Some caKey) = Inr caByt \<and>
                  x509_ParseCertificate (mint_ca env) caByt = Inr caCert \<and>
                  ecdsa_GenerateKey (mint_leaf env) P384 = Inr certKey \<and>
                  rand_Int (mint_leaf env) (2 ^ 128) = Inr serial \<and>
                  x509_CreateCertificate (mint_leaf env) (certTempl (mint_leaf env) serial)
                    caCert (Public certKey) (Some caKey) = Inr certByt \<and>
                  x509_ParseCertificate (mint_leaf env) certByt = Inr cert)"
    by (rule exI[of _ caCert], rule exI[of _ caByt], rule exI[of _ caKey], rule exI[of _ cert],
        rule exI[of _ certByt], rule exI[of _ certKey], rule exI[of _ certKeyByte],
        rule exI[of _ keypair])
       (intro conjI ca lf ms kp ln steps)
next
  fix server err
  assume "selfCert (mint_ca env) None None = Inl err"
  then show "main_tls env server = Panic err" by (rule main_tls_ca_fails)
next
  fix server caCert caByt caKey err
  assume "selfCert (mint_ca env) None None = Inr (caCert, caByt, caKey) \<and>
             selfCert (mint_leaf env) (Some caCert) (Some caKey) = Inl err"
  then show "main_tls env server = Panic err" using main_tls_leaf_fails by blast
next
  fix server caCert caByt caKey cert certByt certKey err
  assume "selfCert (mint_ca env) None None = Inr (caCert, caByt, caKey) \<and>
             selfCert (mint_leaf env) (Some caCert) (Some caKey) = Inr (cert, certByt, certKey) \<and>
             x509_MarshalECPrivateKey env certKey = Inl err"
  then show "main_tls env server = Panic err" using main_tls_marshal_fails by blast
next
  fix server caCert caByt caKey cert certByt certKey certKeyByte err
  assume "selfCert (mint_ca env) None None = Inr (caCert, caByt, caKey) \<and>
             selfCert (mint_leaf env) (Some caCert) (Some caKey) = Inr (cert, certByt, certKey) \<and>
             x509_MarshalECPrivateKey env certKey = Inr certKeyByte \<and>
             tls_X509KeyPair env
               (pem_EncodeToMemory env \<lparr>pem_Type = ''CERTIFICATE'', pem_Bytes = certByt\<rparr>)
               (pem_EncodeToMemory env
                  \<lparr>pem_Type = ''EC PRIVATE KEY'', pem_Bytes = certKeyByte\<rparr>) = Inl err"
  then show "main_tls env server = Exit" using main_tls_keypair_fails by blast
next
  fix server :: http_Server and caCert caByt caKey cert certByt certKey certKeyByte keypair err
  assume "selfCert (mint_ca env) None None = Inr (caCert, caByt, caKey) \<and>
             selfCert (mint_leaf env) (Some caCert) (Some caKey) = Inr (cert, certByt, certKey) \<and>
             x509_MarshalECPrivateKey env certKey = Inr certKeyByte \<and>
             tls_X509KeyPair env
               (pem_EncodeToMemory env \<lparr>pem_Type = ''CERTIFICATE'', pem_Bytes = certByt\<rparr>)
               (pem_EncodeToMemory env
                  \<lparr>pem_Type = ''EC PRIVATE KEY'', pem_Bytes = certKeyByte\<rparr>) = Inr keypair \<and>
             tls_Listen env ''tcp'' (Addr server)
               \<lparr>MinVersion = VersionTLS12, MaxVersion = VersionTLS12,
                 Certificates = [keypair]\<rparr> = Inl err"
  then show "main_tls env server = Panic err" using main_tls_listen_fails by blast
qed

lemma selfCert_example_leaf:
  "selfCert (mint_example 3) (Some caCert) (Some (key_example 2)) =
     Inr (\<lparr>SerialNumber = 12348, Subject_Organization = [''Pacur HTTP Server''],
            NotBefore = 1699913600000000000, NotAfter = 1794608000000000000,
            KeyUsage = 5, ExtKeyUsage = [ExtKeyUsageServerAuth],
            BasicConstraintsValid = True, SignatureAlgorithm = ECDSAWithSHA256\<rparr>,
          [3, 12348, 2], key_example 3)"
  by (simp add: selfCert_def mint_example_def Let_def certTempl_def key_example_def)

lemma main_example:
  "snd (main boot_example flags_tls) =
     Serve \<lparr>Addr = ''[::]:8000'',
            Handler = \<lparr>Root = ''/srv'', Cache = False, ContentType = []\<rparr>\<rparr> 7"
  by (simp add: main_def main_tls_def boot_example_def flags_tls_def Let_def
      selfCert_example_ca selfCert_example_leaf Sprintf_d_def showNat.simps digit_def)

lemma main_badpair: "snd (main boot_badpair flags_tls) = Exit"
  by (simp add: main_def main_tls_def boot_badpair_def boot_example_def flags_tls_def Let_def
      selfCert_example_ca selfCert_example_leaf)

theorem tls_bootstrap_failure_is_fatal_witness:
  "flag_tls flags_tls = Some True \<and>
   snd (main boot_example flags_tls) =
     Serve \<lparr>Addr = ''[::]:8000'',
            Handler = \<lparr>Root = ''/srv'', Cache = False, ContentType = []\<rparr>\<rparr> 7 \<and>
   (\<exists>keypair. tls_Listen boot_example ''tcp'' ''[::]:8000''
       \<lparr>MinVersion = VersionTLS12, MaxVersion = VersionTLS12, Certificates = [keypair]\<rparr> =
       Inr 7) \<and>
   snd (main boot_badpair flags_tls) = Exit"
proof -
  have f: "flag_tls flags_tls = Some True" by (simp add: flags_tls_def)
  note t = tls_bootstrap_failure_is_fatal[OF f, of boot_example,
      THEN conjunct2, THEN conjunct1, rule_format, OF main_example]
  from t have k: "\<exists>keypair. tls_Listen boot_example ''tcp'' ''[::]:8000''
       \<lparr>MinVersion = VersionTLS12, MaxVersion = VersionTLS12, Certificates = [keypair]\<rparr> =
       Inr 7"
    by auto
  show ?thesis by (intro conjI f main_example k main_badpair)
qed

end
